theory Spec2Isabelle
  imports Main "HOL-Library.Sublist"
begin

section \<open>JavaScript values and the primitives the sources rely on\<close>

text \<open>
  The repository holds several historical versions of one microlibrary: \<open>src/syntax.js\<close>
  (extension lookup only), \<open>part_001\<close> (adds shebang detection, tables named \<open>VALID_*\<close>),
  and \<open>part_000\<close>/\<open>part_002\<close> (tables keyed by language name). Definitions of
  \<open>syntax.js\<close> keep their names; those of \<open>part_001\<close>, \<open>part_002\<close> and \<open>part_000\<close> carry
  the suffixes \<open>_1\<close>, \<open>_2\<close> and \<open>_0\<close>.

  Strings are \<open>string\<close>, one \<open>char\<close> per UTF-16 code unit, so the model covers the
  strings whose code units are below 256. A thrown exception is the \<open>Inl\<close> of a sum.
\<close>

datatype error = TypeError | ReferenceError

text \<open>The values a file type variable holds in the sources: \<open>undefined\<close> (a missing
  array element or property), \<open>null\<close> (returned by the lookups) or a string.\<close>

datatype jsval = Undefined | Null | Str string

definition bindE :: "error + 'a \<Rightarrow> ('a \<Rightarrow> error + 'b) \<Rightarrow> error + 'b" where
  "bindE m f = (case m of Inl e \<Rightarrow> Inl e | Inr x \<Rightarrow> f x)"

text \<open>\<open>'' + value\<close>, also the conversion of a property key.\<close>

fun toString :: "jsval \<Rightarrow> string" where
  "toString Undefined = ''undefined''"
| "toString Null = ''null''"
| "toString (Str s) = s"

text \<open>Truthiness of a value in a condition (\<open>!!value\<close>).\<close>

fun truthy :: "jsval \<Rightarrow> bool" where
  "truthy Undefined = False"
| "truthy Null = False"
| "truthy (Str s) = (s \<noteq> [])"

text \<open>\<open>arr[i]\<close>: reading past the end of an array gives \<open>undefined\<close>.\<close>

definition at :: "string list \<Rightarrow> nat \<Rightarrow> jsval" where
  "at arr i = (if i < length arr then Str (arr ! i) else Undefined)"

text \<open>\<open>String.prototype.split\<close> with a non-empty string separator: scan from the left,
  cut at each occurrence and resume after it; \<open>cur\<close> is the piece collected so far.\<close>

fun split_from :: "'a list \<Rightarrow> 'a list \<Rightarrow> 'a list \<Rightarrow> 'a list list" where
  "split_from sep cur [] = [cur]"
| "split_from sep cur (c # cs) =
     (if prefix sep (c # cs) then cur # split_from sep [] (drop (length sep - 1) cs)
      else split_from sep (cur @ [c]) cs)"

text \<open>With the empty separator \<open>split\<close> returns the code units one by one.\<close>

definition String_split :: "string \<Rightarrow> string \<Rightarrow> string list" where
  "String_split s sep = (if sep = [] then map (\<lambda>c. [c]) s else split_from sep [] s)"

text \<open>The white space class \<open>\s\<close> of a regular expression, on code units below 256:
  TAB, LF, VT, FF, CR, SP and NBSP.\<close>

definition isWhiteSpace :: "char \<Rightarrow> bool" where
  "isWhiteSpace c = (c \<in> set [CHR 0x09, CHR 0x0A, CHR 0x0B, CHR 0x0C, CHR 0x0D, CHR '' '', CHR 0xA0])"

text \<open>\<open>split(new RegExp(/\s/))\<close>: cut at every single white space character.\<close>

fun split_ws_from :: "string \<Rightarrow> string \<Rightarrow> string list" where
  "split_ws_from cur [] = [cur]"
| "split_ws_from cur (c # cs) =
     (if isWhiteSpace c then cur # split_ws_from [] cs else split_ws_from (cur @ [c]) cs)"

text \<open>A method call \<open>value.split(sep)\<close>: a \<open>TypeError\<close> on \<open>undefined\<close> and \<open>null\<close>.\<close>

definition split_of :: "jsval \<Rightarrow> string \<Rightarrow> error + string list" where
  "split_of v sep = (case v of Str s \<Rightarrow> Inr (String_split s sep) | _ \<Rightarrow> Inl TypeError)"

text \<open>\<open>Array.prototype.indexOf\<close> on an array of strings (strict equality): the first
  position of the value, \<open>-1\<close> when absent.\<close>

fun indexOf :: "string list \<Rightarrow> jsval \<Rightarrow> int" where
  "indexOf [] v = - 1"
| "indexOf (x # xs) v =
     (if v = Str x then 0 else (let i = indexOf xs v in if i = - 1 then - 1 else i + 1))"

text \<open>\<open>Object.keys\<close> of an object literal with identifier keys: the keys in the order
  written. \<open>obj[key]\<close> on such a table is \<open>map_of obj\<close> at the key's string.\<close>

definition Object_keys :: "(string \<times> 'v) list \<Rightarrow> string list" where
  "Object_keys obj = map fst obj"

section \<open>\<open>src/syntax.js\<close>\<close>

definition VALID_FILE_TYPES :: "string list" where
  "VALID_FILE_TYPES =
     [''c'', ''css'', ''js'',
      ''htaccess'', ''html'',
      ''json'', ''md'', ''php'',
      ''pl'', ''py'', ''rb'',
      ''sh'', ''xml'', ''xslt'']"

definition VALID_FILE_TYPE_SYNONYMS :: "(string \<times> string list) list" where
  "VALID_FILE_TYPE_SYNONYMS =
     [(''c'', [''cpp'', ''h'']),
      (''html'', [''htm'', ''dhtml'', ''xhtml'']),
      (''js'', [''jse'', ''json'']),
      (''pl'', [''cgi'', ''perl'']),
      (''php'', [''php5'', ''phtml'']),
      (''rb'', [''erb''])]"

definition VALID_FILE_TYPE_ASSOCS :: "(string \<times> string list) list" where
  "VALID_FILE_TYPE_ASSOCS =
     [(''html'', [''css'', ''js'', ''php'']),
      (''json'', [''js'']),
      (''php'', [''css'', ''html'', ''js''])]"

definition isFileBlob :: "string \<Rightarrow> bool" where
  "isFileBlob queryString =
     (let splitQueryString = String_split queryString '';a=blob'';
          isBlob = length splitQueryString - 1
      in if isBlob = 0 then False else True)"

text \<open>\<open>getFileTypeAssocs\<close>, over any association table. The last branch (a key that
  passes the \<open>indexOf\<close> test and has no property) cannot be reached; there \<open>concat\<close>
  would append \<open>undefined\<close>.\<close>

definition getFileTypeAssocs_of :: "(string \<times> string list) list \<Rightarrow> jsval \<Rightarrow> jsval list" where
  "getFileTypeAssocs_of table fileType =
     (let fileTypes = [fileType];
          keys = Object_keys table
      in if indexOf keys fileType = - 1 then fileTypes
         else (case map_of table (toString fileType) of
                 Some assocs \<Rightarrow> fileTypes @ map Str assocs
               | None \<Rightarrow> fileTypes @ [Undefined]))"

definition getFileTypeAssocs :: "jsval \<Rightarrow> jsval list" where
  "getFileTypeAssocs fileType = getFileTypeAssocs_of VALID_FILE_TYPE_ASSOCS fileType"

text \<open>The \<open>for\<close> loops of \<open>getPrimaryFileType\<close> and \<open>isFileTypeSynonym\<close> visit
  \<open>keys[i]\<close> and read \<open>VALID_FILE_TYPE_SYNONYMS[keys[i]]\<close>, that is, the entries of the
  table in order.\<close>

fun getPrimaryFileType_loop :: "(string \<times> string list) list \<Rightarrow> jsval \<Rightarrow> jsval" where
  "getPrimaryFileType_loop [] fileType = Null"
| "getPrimaryFileType_loop ((thisKey, thisFileTypeSynonyms) # rest) fileType =
     (if indexOf thisFileTypeSynonyms fileType \<noteq> - 1 then Str thisKey
      else getPrimaryFileType_loop rest fileType)"

definition getPrimaryFileType :: "jsval \<Rightarrow> jsval" where
  "getPrimaryFileType fileType = getPrimaryFileType_loop VALID_FILE_TYPE_SYNONYMS fileType"

fun isFileTypeSynonym_loop :: "(string \<times> string list) list \<Rightarrow> jsval \<Rightarrow> bool" where
  "isFileTypeSynonym_loop [] fileType = False"
| "isFileTypeSynonym_loop ((thisKey, thisFileTypeSynonyms) # rest) fileType =
     (if indexOf thisFileTypeSynonyms fileType \<noteq> - 1 then True
      else isFileTypeSynonym_loop rest fileType)"

definition isFileTypeSynonym :: "jsval \<Rightarrow> bool" where
  "isFileTypeSynonym fileType = isFileTypeSynonym_loop VALID_FILE_TYPE_SYNONYMS fileType"

text \<open>\<open>highlightSyntax\<close> returns before \<open>hljs.configure\<close> (\<open>None\<close>) or configures the
  highlighter with a list of languages (\<open>Some\<close>); the calls into highlight.js and the
  DOM that follow are outside the model. Its body is two blocks: lines 117-134 take
  the file type token out of the query string (\<open>None\<close>: no \<open>;f=\<close>, return), lines
  136-151 resolve the token and configure the highlighter.\<close>

definition highlightSyntax_fileType :: "string \<Rightarrow> error + jsval option" where
  "highlightSyntax_fileType queryString =
     (let splitQueryString = String_split queryString '';f='';
          isFile = length splitQueryString - 1
      in if isFile = 0 then Inr None
         else
           bindE (split_of (at splitQueryString 1) '';'') (\<lambda>fields.
           let pathName = at fields 0 in
           bindE (split_of pathName ''/'') (\<lambda>splitPathName.
           let fileName = at splitPathName (length splitPathName - 1) in
           bindE (split_of fileName ''.'') (\<lambda>splitFileName.
           let fileType = at splitFileName (length splitFileName - 1)
           in Inr (Some fileType)))))"

definition highlightSyntax_configure :: "jsval \<Rightarrow> jsval list option" where
  "highlightSyntax_configure fileType =
     (let isValidFileType =
            (indexOf VALID_FILE_TYPES fileType \<noteq> - 1 \<or> isFileTypeSynonym fileType)
      in if \<not> isValidFileType then None
         else
           let fileType =
                 (if indexOf VALID_FILE_TYPES fileType = - 1
                  then getPrimaryFileType fileType else fileType);
               fileTypes = getFileTypeAssocs fileType
           in Some fileTypes)"

definition highlightSyntax :: "string \<Rightarrow> error + jsval list option" where
  "highlightSyntax queryString =
     bindE (highlightSyntax_fileType queryString) (\<lambda>token.
       case token of
         None \<Rightarrow> Inr None
       | Some fileType \<Rightarrow> Inr (highlightSyntax_configure fileType))"

definition onReady :: "string \<Rightarrow> error + jsval list option" where
  "onReady queryString =
     (if queryString = [] then Inr None
      else let isBlob = isFileBlob queryString
           in if \<not> isBlob then Inr None else highlightSyntax queryString)"

section \<open>\<open>Utils\<close> (the same in \<open>part_000\<close>, \<open>part_001\<close> and \<open>part_002\<close>)\<close>

text \<open>The delimiters handed to \<open>Utils.toArray\<close>: a string, or the regular expression
  \<open>new RegExp(/\s/)\<close>.\<close>

datatype delimiter = Sep string | WhiteSpaceRegExp

text \<open>The haystacks handed to \<open>Utils.inArray\<close>: arrays of strings and, in \<open>part_000\<close>,
  the object literal \<open>LANG_PRIMARY_FILE_TYPES\<close>.\<close>

datatype haystack = ArrayOf "string list" | ObjectOf "(string \<times> string) list"

text \<open>\<open>Utils.toBool\<close> on the numbers it receives (array indices): \<open>!!0\<close> is false.\<close>

definition toBool :: "nat \<Rightarrow> bool" where
  "toBool value = (value \<noteq> 0)"

text \<open>\<open>Utils.toArray\<close>: \<open>typeof undefined\<close> is neither \<open>'string'\<close> nor \<open>'number'\<close>, and
  \<open>typeof null\<close> is \<open>'object'\<close>; both throw.\<close>

definition toArray :: "jsval \<Rightarrow> delimiter \<Rightarrow> error + string list" where
  "toArray value delimiter =
     (case value of
        Str s \<Rightarrow>
          Inr (case delimiter of
                 Sep d \<Rightarrow> String_split s d
               | WhiteSpaceRegExp \<Rightarrow> split_ws_from [] s)
      | _ \<Rightarrow> Inl TypeError)"

definition isArray :: "haystack \<Rightarrow> bool" where
  "isArray arr = (case arr of ArrayOf _ \<Rightarrow> True | ObjectOf _ \<Rightarrow> False)"

definition inArray :: "jsval \<Rightarrow> haystack \<Rightarrow> error + bool" where
  "inArray needle haystack =
     (if \<not> isArray haystack then Inl TypeError
      else case haystack of
             ArrayOf xs \<Rightarrow> Inr (indexOf xs needle > - 1)
           | ObjectOf _ \<Rightarrow> Inl TypeError)"

text \<open>\<open>Utils.getKeys\<close> on an object literal (\<open>obj instanceof Object\<close> holds).\<close>

definition getKeys :: "(string \<times> 'v) list \<Rightarrow> string list" where
  "getKeys obj = Object_keys obj"

text \<open>\<open>Utils.getLastIndex\<close> on an array (every call site passes a result of
  \<open>toArray\<close>).\<close>

definition getLastIndex :: "string list \<Rightarrow> nat" where
  "getLastIndex arr = (if length arr > 0 then length arr - 1 else 0)"

text \<open>\<open>TABLE[key]\<close> on a table of strings: the key is converted to a string; a missing
  property reads \<open>undefined\<close>. Properties inherited from \<open>Object.prototype\<close> are left
  out: the keys that reach this read are \<open>null\<close> or interpreter names of the list of
  language names (lemma \<open>getExecutableType_1_range\<close>).\<close>

definition getProperty :: "(string \<times> string) list \<Rightarrow> jsval \<Rightarrow> jsval" where
  "getProperty obj key = (case map_of obj (toString key) of Some v \<Rightarrow> Str v | None \<Rightarrow> Undefined)"

text \<open>The \<open>Syntax\<close> methods that differ between the versions only in the table they
  name, over that table. \<open>isFileTypeSynonym\<close> (\<open>isSynonymFileType\<close> in \<open>part_002\<close>) is
  the loop of \<open>syntax.js\<close>, \<open>isFileTypeSynonym_loop\<close>.\<close>

definition Syntax_getFileTypeAssocs ::
  "(string \<times> string list) list \<Rightarrow> jsval \<Rightarrow> error + jsval list" where
  "Syntax_getFileTypeAssocs table fileType =
     (let fileTypes = [fileType];
          keys = getKeys table
      in bindE (inArray fileType (ArrayOf keys)) (\<lambda>found.
           if \<not> found then Inr fileTypes
           else Inr (case map_of table (toString fileType) of
                       Some assocs \<Rightarrow> fileTypes @ map Str assocs
                     | None \<Rightarrow> fileTypes @ [Undefined])))"

fun Syntax_getPrimaryFileType ::
  "(string \<times> string list) list \<Rightarrow> jsval \<Rightarrow> error + jsval" where
  "Syntax_getPrimaryFileType [] fileType = Inr Null"
| "Syntax_getPrimaryFileType ((thisKey, synonyms) # rest) fileType =
     bindE (inArray fileType (ArrayOf synonyms)) (\<lambda>found.
       if found then Inr (Str thisKey) else Syntax_getPrimaryFileType rest fileType)"

section \<open>\<open>part_001\<close>\<close>

definition VALID_FILE_TYPES_1 :: "string list" where
  "VALID_FILE_TYPES_1 =
     [''c'', ''css'', ''js'', ''go'', ''htaccess'', ''html'', ''json'', ''md'',
      ''php'', ''pl'', ''py'', ''rb'', ''sh'', ''xml'', ''xslt'']"

definition VALID_FILE_TYPE_SYNONYMS_1 :: "(string \<times> string list) list" where
  "VALID_FILE_TYPE_SYNONYMS_1 =
     [(''c'', [''cpp'', ''h'']),
      (''html'', [''htm'', ''dhtml'', ''xhtml'']),
      (''js'', [''jse'', ''json'']),
      (''pl'', [''cgi'', ''perl'']),
      (''php'', [''php5'', ''phar'', ''phtml'']),
      (''py'', [''pyc'']),
      (''rb'', [''erb''])]"

definition VALID_FILE_TYPE_ASSOCS_1 :: "(string \<times> string list) list" where
  "VALID_FILE_TYPE_ASSOCS_1 =
     [(''html'', [''css'', ''js'', ''php'']),
      (''json'', [''js'']),
      (''php'', [''css'', ''html'', ''js''])]"

definition VALID_LANG_NAMES_1 :: "string list" where
  "VALID_LANG_NAMES_1 =
     [''bash'', ''c'', ''cpp'', ''css'', ''javascript'', ''go'', ''html'', ''markdown'',
      ''php'', ''perl'', ''python'', ''ruby'', ''xml'']"

definition VALID_LANG_ASSOC_FILE_TYPES_1 :: "(string \<times> string) list" where
  "VALID_LANG_ASSOC_FILE_TYPES_1 =
     [(''bash'', ''sh''),
      (''perl'', ''pl''),
      (''php'', ''php''),
      (''python'', ''py''),
      (''ruby'', ''rb''),
      (''sh'', ''sh'')]"

definition isFileBlob_1 :: "string \<Rightarrow> error + bool" where
  "isFileBlob_1 queryString =
     bindE (toArray (Str queryString) (Sep '';a=blob'')) (\<lambda>arr.
       Inr (toBool (getLastIndex arr)))"

definition getFileTypeAssocs_1 :: "jsval \<Rightarrow> error + jsval list" where
  "getFileTypeAssocs_1 fileType = Syntax_getFileTypeAssocs VALID_FILE_TYPE_ASSOCS_1 fileType"

definition getPrimaryFileType_1 :: "jsval \<Rightarrow> error + jsval" where
  "getPrimaryFileType_1 fileType = Syntax_getPrimaryFileType VALID_FILE_TYPE_SYNONYMS_1 fileType"

definition isFileTypeSynonym_1 :: "jsval \<Rightarrow> bool" where
  "isFileTypeSynonym_1 fileType = isFileTypeSynonym_loop VALID_FILE_TYPE_SYNONYMS_1 fileType"

text \<open>\<open>fslocText\<close> is the text of the first source line of the page, which the
  methods read from the DOM; an operand of \<open>&&\<close> is evaluated only when the left one
  is true.\<close>

definition getExecutableType_1 :: "string \<Rightarrow> error + jsval" where
  "getExecutableType_1 fslocText =
     bindE (toArray (Str fslocText) (Sep ''#!'')) (\<lambda>parts.
     let targetPath = at parts 1 in
     bindE (toArray targetPath (Sep ''/'')) (\<lambda>components.
     let executable = at components (getLastIndex components) in
     bindE (toArray executable WhiteSpaceRegExp) (\<lambda>flagOptions.
     let hasOptions = toBool (getLastIndex flagOptions) in
     bindE (if \<not> hasOptions then inArray executable (ArrayOf VALID_LANG_NAMES_1)
            else Inr False) (\<lambda>plain.
     if plain then Inr executable
     else
       bindE (if hasOptions then inArray (at flagOptions 0) (ArrayOf VALID_LANG_NAMES_1)
              else Inr False) (\<lambda>direct.
       if direct then Inr (at flagOptions 0)
       else
         bindE (if hasOptions then inArray (at flagOptions 1) (ArrayOf VALID_LANG_NAMES_1)
                else Inr False) (\<lambda>indirect.
         if indirect then Inr (at flagOptions 1)
         else Inr Null))))))"

definition isExecutable_1 :: "string \<Rightarrow> error + bool" where
  "isExecutable_1 fslocText =
     bindE (toArray (Str fslocText) (Sep ''#!'')) (\<lambda>arr.
       let lastIndex = getLastIndex arr in Inr (toBool lastIndex))"

text \<open>The shebang as \<open>Syntax.highlightSyntax\<close> reads it (lines 343-344):
  \<open>this.isExecutable() ? VALID_LANG_ASSOC_FILE_TYPES[this.getExecutableType()] : ...\<close>.
  \<open>getExecutableType\<close> is private to the closure and runs only behind
  \<open>isExecutable()\<close>, here and in \<open>isFileTypeValid\<close>; \<open>None\<close> stands for the guard being
  false, where the conditional goes on to the extension.\<close>

definition shebangFileType_1 :: "string \<Rightarrow> error + jsval option" where
  "shebangFileType_1 fslocText =
     bindE (isExecutable_1 fslocText) (\<lambda>executable.
       if executable
       then bindE (getExecutableType_1 fslocText) (\<lambda>t.
              Inr (Some (getProperty VALID_LANG_ASSOC_FILE_TYPES_1 t)))
       else Inr None)"

definition isFileTypeValid_1 :: "jsval \<Rightarrow> string \<Rightarrow> error + bool" where
  "isFileTypeValid_1 fileType fslocText =
     bindE (inArray fileType (ArrayOf VALID_FILE_TYPES_1)) (\<lambda>primary.
     if primary then Inr True
     else if isFileTypeSynonym_1 fileType then Inr True
     else
       bindE (isExecutable_1 fslocText) (\<lambda>executable.
       bindE (if executable
              then bindE (getExecutableType_1 fslocText) (\<lambda>t. Inr (truthy t))
              else Inr False) (\<lambda>byContent.
       if byContent then Inr True else Inr False)))"

text \<open>\<open>Syntax.highlightSyntax\<close>, in the same two blocks. The first one is the same
  text in \<open>part_000\<close>, \<open>part_001\<close> and \<open>part_002\<close>.\<close>

definition Syntax_highlightSyntax_fileType :: "string \<Rightarrow> error + jsval option" where
  "Syntax_highlightSyntax_fileType queryString =
     bindE (toArray (Str queryString) (Sep '';f='')) (\<lambda>queryParams.
     let lastIndex = getLastIndex queryParams in
     if \<not> toBool lastIndex then Inr None
     else
       bindE (toArray (at queryParams 1) (Sep '';'')) (\<lambda>fields.
       bindE (toArray (at fields 0) (Sep ''/'')) (\<lambda>pathName.
       bindE (toArray (at pathName (getLastIndex pathName)) (Sep ''.'')) (\<lambda>fileName.
       let fileType = at fileName (getLastIndex fileName)
       in Inr (Some fileType)))))"

definition highlightSyntax_configure_1 :: "jsval \<Rightarrow> string \<Rightarrow> error + jsval list option" where
  "highlightSyntax_configure_1 fileType fslocText =
     bindE (isFileTypeValid_1 fileType fslocText) (\<lambda>valid.
     if \<not> valid then Inr None
     else
       bindE (isExecutable_1 fslocText) (\<lambda>executable.
       bindE (if executable
              then bindE (getExecutableType_1 fslocText) (\<lambda>t.
                     Inr (getProperty VALID_LANG_ASSOC_FILE_TYPES_1 t))
              else bindE (inArray fileType (ArrayOf VALID_FILE_TYPES_1)) (\<lambda>primary.
                     if \<not> primary then getPrimaryFileType_1 fileType
                     else Inr fileType)) (\<lambda>fileType.
       bindE (getFileTypeAssocs_1 fileType) (\<lambda>languages.
       Inr (Some languages)))))"

definition highlightSyntax_1 :: "string \<Rightarrow> string \<Rightarrow> error + jsval list option" where
  "highlightSyntax_1 queryString fslocText =
     bindE (Syntax_highlightSyntax_fileType queryString) (\<lambda>token.
       case token of
         None \<Rightarrow> Inr None
       | Some fileType \<Rightarrow> highlightSyntax_configure_1 fileType fslocText)"

definition onReady_1 :: "string \<Rightarrow> string \<Rightarrow> error + jsval list option" where
  "onReady_1 queryString fslocText =
     bindE (isFileBlob_1 queryString) (\<lambda>isFileBlob.
       if \<not> (queryString \<noteq> [] \<and> isFileBlob) then Inr None
       else highlightSyntax_1 queryString fslocText)"

section \<open>\<open>part_002\<close>\<close>

text \<open>\<open>Syntax.isFileBlob\<close>, \<open>Syntax.isExecutable\<close> and the first block of
  \<open>Syntax.highlightSyntax\<close> are the text of \<open>part_001\<close> (\<open>SHEBANG\<close> is \<open>'#!'\<close>).\<close>

definition LANG_PRIMARY_FILE_TYPES_2 :: "(string \<times> string) list" where
  "LANG_PRIMARY_FILE_TYPES_2 =
     [(''bash'', ''sh''),
      (''c'', ''c''),
      (''cpp'', ''cpp''),
      (''cs'', ''cs''),
      (''css'', ''css''),
      (''javascript'', ''js''),
      (''go'', ''go''),
      (''html'', ''html''),
      (''markdown'', ''md''),
      (''php'', ''php''),
      (''perl'', ''pl''),
      (''python'', ''py''),
      (''ruby'', ''rb''),
      (''sql'', ''sql''),
      (''typescript'', ''ts''),
      (''xml'', ''xml''),
      (''yaml'', ''yml'')]"

definition LANG_FILE_TYPE_SYNONYMS_2 :: "(string \<times> string list) list" where
  "LANG_FILE_TYPE_SYNONYMS_2 =
     [(''bash'', [''bash'', ''csh'', ''ksh'', ''zsh'']),
      (''c'', [''h'']),
      (''html'', [''htm'', ''dhtml'', ''xhtml'']),
      (''javascript'', [''jse'', ''json'']),
      (''markdown'', [''markdown'']),
      (''perl'', [''cgi'', ''perl'']),
      (''php'', [''php5'', ''phar'', ''phtml'']),
      (''python'', [''pyc'']),
      (''ruby'', [''erb''])]"

definition FILE_TYPE_ASSOCIATIONS_2 :: "(string \<times> string list) list" where
  "FILE_TYPE_ASSOCIATIONS_2 =
     [(''html'', [''css'', ''js'', ''php'']),
      (''json'', [''js'']),
      (''javascript'', [''css'', ''html'', ''json'', ''php'']),
      (''php'', [''css'', ''html'', ''js''])]"

definition EXEC_LANG_NAMES_2 :: "string list" where
  "EXEC_LANG_NAMES_2 =
     [''bash'', ''c'', ''cpp'', ''cs'', ''go'', ''perl'', ''php'', ''python'', ''ruby'']"

definition EXEC_LANG_FILE_TYPES_2 :: "(string \<times> string) list" where
  "EXEC_LANG_FILE_TYPES_2 =
     [(''bash'', ''bash''),
      (''perl'', ''pl''),
      (''php'', ''php''),
      (''python'', ''py''),
      (''ruby'', ''rb''),
      (''sh'', ''bash'')]"

text \<open>\<open>getExecutableType\<close> of \<open>part_002\<close> (and of \<open>part_000\<close>) names the list
  \<open>LANG_NAMES\<close>. No declaration of that identifier exists in the file, whose list is
  \<open>EXEC_LANG_NAMES\<close>; evaluating an undeclared identifier throws a
  \<open>ReferenceError\<close>.\<close>

definition LANG_NAMES_2 :: "error + haystack" where
  "LANG_NAMES_2 = Inl ReferenceError"

definition getFileTypeAssocations_2 :: "jsval \<Rightarrow> error + jsval list" where
  "getFileTypeAssocations_2 fileType = Syntax_getFileTypeAssocs FILE_TYPE_ASSOCIATIONS_2 fileType"

definition getPrimaryFileType_2 :: "jsval \<Rightarrow> error + jsval" where
  "getPrimaryFileType_2 fileType = Syntax_getPrimaryFileType LANG_FILE_TYPE_SYNONYMS_2 fileType"

definition isSynonymFileType_2 :: "jsval \<Rightarrow> bool" where
  "isSynonymFileType_2 fileType = isFileTypeSynonym_loop LANG_FILE_TYPE_SYNONYMS_2 fileType"

definition getExecutableType_2 :: "string \<Rightarrow> error + jsval" where
  "getExecutableType_2 fslocText =
     bindE (toArray (Str fslocText) (Sep ''#!'')) (\<lambda>parts.
     let targetPath = at parts 1 in
     bindE (toArray targetPath (Sep ''/'')) (\<lambda>components.
     let executable = at components (getLastIndex components) in
     bindE (toArray executable WhiteSpaceRegExp) (\<lambda>flagOptions.
     let hasOptions = toBool (getLastIndex flagOptions) in
     bindE (if \<not> hasOptions then bindE LANG_NAMES_2 (inArray executable)
            else Inr False) (\<lambda>plain.
     if plain then Inr executable
     else
       bindE (if hasOptions then bindE LANG_NAMES_2 (inArray (at flagOptions 0))
              else Inr False) (\<lambda>direct.
       if direct then Inr (at flagOptions 0)
       else
         bindE (if hasOptions then bindE LANG_NAMES_2 (inArray (at flagOptions 1))
                else Inr False) (\<lambda>indirect.
         if indirect then Inr (at flagOptions 1)
         else Inr Null))))))"

text \<open>The operands of \<open>||\<close> and \<open>&&\<close> are evaluated from the left, as far as needed.\<close>

definition isValidFileType_2 :: "jsval \<Rightarrow> string \<Rightarrow> error + bool" where
  "isValidFileType_2 fileType fslocText =
     (let keys = getKeys LANG_PRIMARY_FILE_TYPES_2 in
      bindE (inArray fileType (ArrayOf keys)) (\<lambda>primary.
      bindE (if primary then Inr True
             else if isSynonymFileType_2 fileType then Inr True
             else bindE (isExecutable_1 fslocText) (\<lambda>executable.
                    if executable
                    then bindE (getExecutableType_2 fslocText) (\<lambda>t. Inr (truthy t))
                    else Inr False)) (\<lambda>valid.
      if valid then Inr True else Inr False)))"

definition highlightSyntax_configure_2 :: "jsval \<Rightarrow> string \<Rightarrow> error + jsval list option" where
  "highlightSyntax_configure_2 fileType fslocText =
     bindE (isValidFileType_2 fileType fslocText) (\<lambda>valid.
     if \<not> valid then Inr None
     else
       bindE (isExecutable_1 fslocText) (\<lambda>executable.
       bindE (if executable
              then bindE (getExecutableType_2 fslocText) (\<lambda>t.
                     Inr (getProperty EXEC_LANG_FILE_TYPES_2 t))
              else bindE (inArray fileType (ArrayOf (getKeys LANG_PRIMARY_FILE_TYPES_2)))
                     (\<lambda>primary.
                       if \<not> primary then getPrimaryFileType_2 fileType
                       else Inr fileType)) (\<lambda>fileType.
       bindE (getFileTypeAssocations_2 fileType) (\<lambda>languages.
       Inr (Some languages)))))"

definition highlightSyntax_2 :: "string \<Rightarrow> string \<Rightarrow> error + jsval list option" where
  "highlightSyntax_2 queryString fslocText =
     bindE (Syntax_highlightSyntax_fileType queryString) (\<lambda>token.
       case token of
         None \<Rightarrow> Inr None
       | Some fileType \<Rightarrow> highlightSyntax_configure_2 fileType fslocText)"

definition onReady_2 :: "string \<Rightarrow> string \<Rightarrow> error + jsval list option" where
  "onReady_2 queryString fslocText =
     bindE (isFileBlob_1 queryString) (\<lambda>isFileBlob.
       if \<not> (queryString \<noteq> [] \<and> isFileBlob) then Inr None
       else highlightSyntax_2 queryString fslocText)"

section \<open>\<open>part_000\<close>\<close>

text \<open>Both copies in \<open>part_000\<close> have the tables, \<open>getExecutableType\<close> and
  \<open>isFileTypeSynonym\<close> of \<open>part_002\<close>; they differ from it in handing the object
  \<open>LANG_PRIMARY_FILE_TYPES\<close> itself, not its keys, to \<open>inArray\<close>.\<close>

definition isFileTypeValid_0 :: "jsval \<Rightarrow> string \<Rightarrow> error + bool" where
  "isFileTypeValid_0 fileType fslocText =
     bindE (inArray fileType (ObjectOf LANG_PRIMARY_FILE_TYPES_2)) (\<lambda>primary.
     if primary then Inr True
     else if isSynonymFileType_2 fileType then Inr True
     else
       bindE (isExecutable_1 fslocText) (\<lambda>executable.
       bindE (if executable
              then bindE (getExecutableType_2 fslocText) (\<lambda>t. Inr (truthy t))
              else Inr False) (\<lambda>byContent.
       if byContent then Inr True else Inr False)))"

definition highlightSyntax_configure_0 :: "jsval \<Rightarrow> string \<Rightarrow> error + jsval list option" where
  "highlightSyntax_configure_0 fileType fslocText =
     bindE (isFileTypeValid_0 fileType fslocText) (\<lambda>valid.
     if \<not> valid then Inr None
     else
       bindE (isExecutable_1 fslocText) (\<lambda>executable.
       bindE (if executable
              then bindE (getExecutableType_2 fslocText) (\<lambda>t.
                     Inr (getProperty EXEC_LANG_FILE_TYPES_2 t))
              else bindE (inArray fileType (ObjectOf LANG_PRIMARY_FILE_TYPES_2)) (\<lambda>primary.
                     if \<not> primary then getPrimaryFileType_2 fileType
                     else Inr fileType)) (\<lambda>fileType.
       bindE (getFileTypeAssocations_2 fileType) (\<lambda>languages.
       Inr (Some languages)))))"

definition highlightSyntax_0 :: "string \<Rightarrow> string \<Rightarrow> error + jsval list option" where
  "highlightSyntax_0 queryString fslocText =
     bindE (Syntax_highlightSyntax_fileType queryString) (\<lambda>token.
       case token of
         None \<Rightarrow> Inr None
       | Some fileType \<Rightarrow> highlightSyntax_configure_0 fileType fslocText)"

definition onReady_0 :: "string \<Rightarrow> string \<Rightarrow> error + jsval list option" where
  "onReady_0 queryString fslocText =
     bindE (isFileBlob_1 queryString) (\<lambda>isFileBlob.
       if \<not> (queryString \<noteq> [] \<and> isFileBlob) then Inr None
       else highlightSyntax_0 queryString fslocText)"

section \<open>Facts about the primitives\<close>

lemma bindE_simps [simp]:
  "bindE (Inl e) f = Inl e"
  "bindE (Inr x) f = f x"
  by (simp_all add: bindE_def)

lemma split_from_nonempty: "split_from sep cur s \<noteq> []"
  by (induction sep cur s rule: split_from.induct) auto

lemma split_from_sublist:
  "sep \<noteq> [] \<Longrightarrow> 1 < length (split_from sep cur s) \<longleftrightarrow> sublist sep s"
proof (induction sep cur s rule: split_from.induct)
  case (1 sep cur)
  then show ?case by simp
next
  case (2 sep cur c cs)
  show ?case
  proof (cases "prefix sep (c # cs)")
    case True
    have "split_from sep [] (drop (length sep - 1) cs) \<noteq> []"
      by (rule split_from_nonempty)
    then have "1 < length (split_from sep cur (c # cs))"
      using True by (cases "split_from sep [] (drop (length sep - 1) cs)") auto
    moreover have "sublist sep (c # cs)"
      using True by (simp add: sublist_Cons_right)
    ultimately show ?thesis by simp
  next
    case False
    then show ?thesis
      using 2 by (simp add: sublist_Cons_right)
  qed
qed

lemma String_split_sublist:
  "sep \<noteq> [] \<Longrightarrow> length (String_split s sep) - 1 = 0 \<longleftrightarrow> \<not> sublist sep s"
  using split_from_sublist [of sep "[]" s] split_from_nonempty [of sep "[]" s]
  by (cases "split_from sep [] s") (auto simp: String_split_def)

lemma indexOf_lower: "- 1 \<le> indexOf xs v"
  by (induction xs) (auto simp: Let_def)

lemma indexOf_absent: "indexOf xs v = - 1 \<longleftrightarrow> v \<notin> Str ` set xs"
proof (induction xs)
  case Nil
  then show ?case by simp
next
  case (Cons x xs)
  have "indexOf xs v + 1 \<noteq> - 1"
    using indexOf_lower [of xs v] by arith
  then show ?case
    using Cons by (auto simp: Let_def)
qed


lemma String_split_nonempty: "sep \<noteq> [] \<Longrightarrow> String_split s sep \<noteq> []"
  by (simp add: String_split_def split_from_nonempty)

lemma split_ws_from_nonempty: "split_ws_from cur s \<noteq> []"
  by (induction cur s rule: split_ws_from.induct) auto

lemma getLastIndex_eq: "getLastIndex arr = length arr - 1"
  by (simp add: getLastIndex_def)

lemma toArray_simps [simp]:
  "toArray (Str s) (Sep d) = Inr (String_split s d)"
  "toArray (Str s) WhiteSpaceRegExp = Inr (split_ws_from [] s)"
  "toArray Undefined delimiter = Inl TypeError"
  "toArray Null delimiter = Inl TypeError"
  by (simp_all add: toArray_def)

lemma inArray_simps [simp]:
  "inArray needle (ArrayOf xs) = Inr (needle \<in> Str ` set xs)"
  "inArray needle (ObjectOf obj) = Inl TypeError"
proof -
  have "indexOf xs needle > - 1 \<longleftrightarrow> needle \<in> Str ` set xs"
    using indexOf_lower [of xs needle] indexOf_absent [of xs needle] by arith
  then show "inArray needle (ArrayOf xs) = Inr (needle \<in> Str ` set xs)"
    by (simp add: inArray_def isArray_def)
  show "inArray needle (ObjectOf obj) = Inl TypeError"
    by (simp add: inArray_def isArray_def)
qed

lemma toBool_getLastIndex_split:
  "sep \<noteq> [] \<Longrightarrow> toBool (getLastIndex (String_split s sep)) \<longleftrightarrow> sublist sep s"
  using String_split_sublist [of sep s] by (simp add: toBool_def getLastIndex_eq)

lemma isExecutable_1_iff: "isExecutable_1 fslocText = Inr (sublist ''#!'' fslocText)"
  by (simp add: isExecutable_1_def toBool_getLastIndex_split)

lemma isFileBlob_1_iff: "isFileBlob_1 queryString = Inr (sublist '';a=blob'' queryString)"
  by (simp add: isFileBlob_1_def toBool_getLastIndex_split)

lemma Syntax_getPrimaryFileType_eq:
  "Syntax_getPrimaryFileType table fileType = Inr (getPrimaryFileType_loop table fileType)"
  by (induction table fileType rule: getPrimaryFileType_loop.induct)
     (auto simp: indexOf_absent)

lemma Syntax_getFileTypeAssocs_eq:
  "Syntax_getFileTypeAssocs table fileType = Inr (getFileTypeAssocs_of table fileType)"
  by (simp add: Syntax_getFileTypeAssocs_def getFileTypeAssocs_of_def getKeys_def
      indexOf_absent Let_def)

lemma getFileTypeAssocs_of_Str:
  "getFileTypeAssocs_of table (Str t) =
     Str t # (case map_of table t of Some assocs \<Rightarrow> map Str assocs | None \<Rightarrow> [])"
proof (cases "map_of table t")
  case None
  then have "t \<notin> fst ` set table"
    by (simp add: map_of_eq_None_iff)
  then have "Str t \<notin> Str ` set (map fst table)"
    by auto
  then show ?thesis
    using None by (simp add: getFileTypeAssocs_of_def Object_keys_def indexOf_absent)
next
  case (Some assocs)
  then have "t \<in> fst ` set table"
    by (metis map_of_eq_None_iff option.distinct(1))
  then have "Str t \<in> Str ` set (map fst table)"
    by auto
  then show ?thesis
    using Some by (simp add: getFileTypeAssocs_of_def Object_keys_def indexOf_absent)
qed

lemma getFileTypeAssocs_of_not_Str:
  "getFileTypeAssocs_of table Undefined = [Undefined]"
  "getFileTypeAssocs_of table Null = [Null]"
  by (auto simp: getFileTypeAssocs_of_def Object_keys_def indexOf_absent Let_def)

lemma highlightSyntax_configure_eq:
  "highlightSyntax_configure fileType =
     (if fileType \<in> Str ` set VALID_FILE_TYPES then Some (getFileTypeAssocs fileType)
      else if isFileTypeSynonym fileType then Some (getFileTypeAssocs (getPrimaryFileType fileType))
      else None)"
  by (simp add: highlightSyntax_configure_def indexOf_absent Let_def)

lemma isFileTypeValid_1_no_shebang:
  "\<not> sublist ''#!'' fslocText \<Longrightarrow>
   isFileTypeValid_1 fileType fslocText =
     Inr (fileType \<in> Str ` set VALID_FILE_TYPES_1 \<or> isFileTypeSynonym_1 fileType)"
  by (simp add: isFileTypeValid_1_def isExecutable_1_iff)

lemma highlightSyntax_configure_1_no_shebang:
  "\<not> sublist ''#!'' fslocText \<Longrightarrow>
   highlightSyntax_configure_1 fileType fslocText =
     Inr (if fileType \<in> Str ` set VALID_FILE_TYPES_1
          then Some (getFileTypeAssocs_of VALID_FILE_TYPE_ASSOCS_1 fileType)
          else if isFileTypeSynonym_1 fileType
          then Some (getFileTypeAssocs_of VALID_FILE_TYPE_ASSOCS_1
                 (getPrimaryFileType_loop VALID_FILE_TYPE_SYNONYMS_1 fileType))
          else None)"
  by (simp add: highlightSyntax_configure_1_def isFileTypeValid_1_no_shebang isExecutable_1_iff
      getPrimaryFileType_1_def Syntax_getPrimaryFileType_eq getFileTypeAssocs_1_def
      Syntax_getFileTypeAssocs_eq)

lemma isValidFileType_2_no_shebang:
  "\<not> sublist ''#!'' fslocText \<Longrightarrow>
   isValidFileType_2 fileType fslocText =
     Inr (fileType \<in> Str ` set (getKeys LANG_PRIMARY_FILE_TYPES_2) \<or> isSynonymFileType_2 fileType)"
  by (simp add: isValidFileType_2_def isExecutable_1_iff Let_def)

lemma highlightSyntax_configure_2_no_shebang:
  "\<not> sublist ''#!'' fslocText \<Longrightarrow>
   highlightSyntax_configure_2 fileType fslocText =
     Inr (if fileType \<in> Str ` set (getKeys LANG_PRIMARY_FILE_TYPES_2)
          then Some (getFileTypeAssocs_of FILE_TYPE_ASSOCIATIONS_2 fileType)
          else if isSynonymFileType_2 fileType
          then Some (getFileTypeAssocs_of FILE_TYPE_ASSOCIATIONS_2
                 (getPrimaryFileType_loop LANG_FILE_TYPE_SYNONYMS_2 fileType))
          else None)"
  by (simp add: highlightSyntax_configure_2_def isValidFileType_2_no_shebang isExecutable_1_iff
      getPrimaryFileType_2_def Syntax_getPrimaryFileType_eq getFileTypeAssocations_2_def
      Syntax_getFileTypeAssocs_eq)

lemma fileType_app_php5:
  "highlightSyntax_fileType '';a=blob;f=lib/app.php5'' = Inr (Some (Str ''php5''))"
  "Syntax_highlightSyntax_fileType '';a=blob;f=lib/app.php5'' = Inr (Some (Str ''php5''))"
  by (simp_all add: highlightSyntax_fileType_def Syntax_highlightSyntax_fileType_def
      String_split_def split_of_def getLastIndex_def toBool_def at_def)

lemma at_getLastIndex: "xs \<noteq> [] \<Longrightarrow> at xs (getLastIndex xs) = Str (last xs)"
  by (simp add: getLastIndex_def at_def last_conv_nth)

lemma at_length_minus: "xs \<noteq> [] \<Longrightarrow> at xs (length xs - Suc 0) = Str (last xs)"
  by (simp add: at_def last_conv_nth)

lemma String_split_no_marker:
  assumes "sep \<noteq> []" "\<not> sublist sep s"
  shows "length (String_split s sep) = 1"
proof -
  have "length (String_split s sep) - 1 = 0"
    using String_split_sublist [OF assms(1), of s] assms(2) by simp
  moreover have "String_split s sep \<noteq> []"
    using assms(1) by (rule String_split_nonempty)
  ultimately show ?thesis
    by (cases "String_split s sep") auto
qed

lemma String_split_marker:
  assumes "sep \<noteq> []" "sublist sep s"
  shows "1 < length (String_split s sep)"
  using split_from_sublist [OF assms(1), of "[]" s] assms by (simp add: String_split_def)

lemma getExecutableType_1_no_shebang:
  assumes "\<not> sublist ''#!'' fslocText"
  shows "getExecutableType_1 fslocText = Inl TypeError"
proof -
  have "length (String_split fslocText ''#!'') = 1"
    using assms by (simp add: String_split_no_marker)
  then have "at (String_split fslocText ''#!'') 1 = Undefined"
    by (simp add: at_def)
  then show ?thesis
    by (simp add: getExecutableType_1_def)
qed

lemma getExecutableType_1_shebang:
  assumes "sublist ''#!'' fslocText"
  shows "getExecutableType_1 fslocText =
     Inr (let executable = last (String_split (String_split fslocText ''#!'' ! 1) ''/'');
              flagOptions = split_ws_from [] executable
          in if length flagOptions = 1
             then (if executable \<in> set VALID_LANG_NAMES_1 then Str executable else Null)
             else if hd flagOptions \<in> set VALID_LANG_NAMES_1 then Str (hd flagOptions)
             else if flagOptions ! 1 \<in> set VALID_LANG_NAMES_1 then Str (flagOptions ! 1)
             else Null)"
proof -
  define targetPath where "targetPath = String_split fslocText ''#!'' ! Suc 0"
  define executable where "executable = last (String_split targetPath ''/'')"
  define flagOptions where "flagOptions = split_ws_from [] executable"
  have "1 < length (String_split fslocText ''#!'')"
    using String_split_marker [of "''#!''" fslocText] assms by simp
  then have p: "at (String_split fslocText ''#!'') (Suc 0) = Str targetPath"
    by (simp add: at_def targetPath_def)
  have c: "at (String_split targetPath ''/'') (getLastIndex (String_split targetPath ''/'')) =
      Str executable"
    by (simp add: at_getLastIndex String_split_nonempty executable_def)
  have ne: "flagOptions \<noteq> []"
    by (simp add: flagOptions_def split_ws_from_nonempty)
  have a0: "at flagOptions 0 = Str (hd flagOptions)"
    using ne by (simp add: at_def hd_conv_nth)
  have h: "toBool (getLastIndex flagOptions) \<longleftrightarrow> length flagOptions \<noteq> 1"
    using ne by (cases flagOptions) (auto simp: toBool_def getLastIndex_def)
  have a1: "at flagOptions (Suc 0) = Str (flagOptions ! Suc 0)" if "length flagOptions \<noteq> 1"
    using ne that by (cases flagOptions) (auto simp: at_def)
  have "getExecutableType_1 fslocText =
     Inr (if length flagOptions = 1
          then (if executable \<in> set VALID_LANG_NAMES_1 then Str executable else Null)
          else if hd flagOptions \<in> set VALID_LANG_NAMES_1 then Str (hd flagOptions)
          else if flagOptions ! Suc 0 \<in> set VALID_LANG_NAMES_1 then Str (flagOptions ! Suc 0)
          else Null)"
    unfolding getExecutableType_1_def
    by (simp add: p c flagOptions_def [symmetric] h a0 a1 image_iff)
  then show ?thesis
    by (simp add: Let_def flagOptions_def executable_def targetPath_def)
qed

lemma getExecutableType_1_range:
  assumes "getExecutableType_1 fslocText = Inr v"
  shows "sublist ''#!'' fslocText \<and> (v = Null \<or> v \<in> Str ` set VALID_LANG_NAMES_1)"
proof -
  have s: "sublist ''#!'' fslocText"
    using assms getExecutableType_1_no_shebang [of fslocText] by auto
  show ?thesis
    using assms s unfolding getExecutableType_1_shebang [OF s]
    by (auto simp: Let_def split: if_splits)
qed

lemma getExecutableType_1_examples:
  "getExecutableType_1 ''#!/usr/bin/perl -w'' = Inr (Str ''perl'')"
  "getExecutableType_1 ''#!/usr/bin/env python -c'' = Inr (Str ''python'')"
  "getExecutableType_1 ''#!/bin/bash'' = Inr (Str ''bash'')"
  "getExecutableType_1 ''#!/usr/bin/unknown'' = Inr Null"
  by (simp_all add: getExecutableType_1_def String_split_def at_def getLastIndex_def toBool_def
      isWhiteSpace_def VALID_LANG_NAMES_1_def)

lemma getProperty_examples:
  "getProperty VALID_LANG_ASSOC_FILE_TYPES_1 (Str ''perl'') = Str ''pl''"
  "getProperty VALID_LANG_ASSOC_FILE_TYPES_1 (Str ''python'') = Str ''py''"
  "getProperty VALID_LANG_ASSOC_FILE_TYPES_1 (Str ''bash'') = Str ''sh''"
  "getProperty VALID_LANG_ASSOC_FILE_TYPES_1 Null = Undefined"
  by (simp_all add: getProperty_def VALID_LANG_ASSOC_FILE_TYPES_1_def)

lemma highlightSyntax_configure_1_shebang:
  assumes "getExecutableType_1 fslocText = Inr v"
  shows "highlightSyntax_configure_1 fileType fslocText =
     Inr (if fileType \<in> Str ` set VALID_FILE_TYPES_1 \<or> isFileTypeSynonym_1 fileType \<or> truthy v
          then Some (getFileTypeAssocs_of VALID_FILE_TYPE_ASSOCS_1
                       (getProperty VALID_LANG_ASSOC_FILE_TYPES_1 v))
          else None)"
proof -
  have s: "sublist ''#!'' fslocText"
    using getExecutableType_1_range [OF assms] by simp
  have v: "isFileTypeValid_1 fileType fslocText =
      Inr (fileType \<in> Str ` set VALID_FILE_TYPES_1 \<or> isFileTypeSynonym_1 fileType \<or> truthy v)"
    using s assms by (simp add: isFileTypeValid_1_def isExecutable_1_iff)
  show ?thesis
    using s assms
    by (simp add: highlightSyntax_configure_1_def v isExecutable_1_iff getFileTypeAssocs_1_def
        Syntax_getFileTypeAssocs_eq)
qed

lemma Syntax_highlightSyntax_fileType_eq:
  "Syntax_highlightSyntax_fileType queryString =
     Inr (if sublist '';f='' queryString
          then Some (Str (last (String_split (last (String_split
                 (hd (String_split (String_split queryString '';f='' ! 1) '';'')) ''/'')) ''.'')))
          else None)"
proof (cases "sublist '';f='' queryString")
  case False
  then show ?thesis
    by (simp add: Syntax_highlightSyntax_fileType_def toBool_getLastIndex_split)
next
  case True
  define field where "field = String_split queryString '';f='' ! Suc 0"
  define pathName where "pathName = hd (String_split field '';'')"
  define fileName where "fileName = last (String_split pathName ''/'')"
  have "1 < length (String_split queryString '';f='')"
    using String_split_marker [of "'';f=''" queryString] True by simp
  then have a: "at (String_split queryString '';f='') (Suc 0) = Str field"
    by (simp add: at_def field_def)
  have b: "at (String_split field '';'') 0 = Str pathName"
    by (simp add: at_def pathName_def hd_conv_nth String_split_nonempty)
  have c: "at (String_split pathName ''/'') (getLastIndex (String_split pathName ''/'')) =
      Str fileName"
    by (simp add: at_getLastIndex String_split_nonempty fileName_def)
  have d: "at (String_split fileName ''.'') (getLastIndex (String_split fileName ''.'')) =
      Str (last (String_split fileName ''.''))"
    by (simp add: at_getLastIndex String_split_nonempty)
  have "Syntax_highlightSyntax_fileType queryString =
      Inr (Some (Str (last (String_split fileName ''.''))))"
    using True
    by (simp add: Syntax_highlightSyntax_fileType_def toBool_getLastIndex_split a b c d)
  then show ?thesis
    using True by (simp add: fileName_def pathName_def field_def)
qed

lemma highlightSyntax_fileType_eq:
  "highlightSyntax_fileType queryString = Syntax_highlightSyntax_fileType queryString"
proof (cases "sublist '';f='' queryString")
  case False
  then show ?thesis
    using String_split_sublist [of "'';f=''" queryString]
    by (simp add: Syntax_highlightSyntax_fileType_eq highlightSyntax_fileType_def)
next
  case True
  define field where "field = String_split queryString '';f='' ! Suc 0"
  define pathName where "pathName = hd (String_split field '';'')"
  define fileName where "fileName = last (String_split pathName ''/'')"
  have "1 < length (String_split queryString '';f='')"
    using String_split_marker [of "'';f=''" queryString] True by simp
  then have a: "at (String_split queryString '';f='') (Suc 0) = Str field"
    by (simp add: at_def field_def)
  have b: "at (String_split field '';'') 0 = Str pathName"
    by (simp add: at_def pathName_def hd_conv_nth String_split_nonempty)
  have c: "at (String_split pathName ''/'') (length (String_split pathName ''/'') - Suc 0) =
      Str fileName"
    by (simp add: at_length_minus String_split_nonempty fileName_def)
  have d: "at (String_split fileName ''.'') (length (String_split fileName ''.'') - Suc 0) =
      Str (last (String_split fileName ''.''))"
    by (simp add: at_length_minus String_split_nonempty)
  have "highlightSyntax_fileType queryString =
      Inr (Some (Str (last (String_split fileName ''.''))))"
    using True String_split_sublist [of "'';f=''" queryString]
    by (simp add: highlightSyntax_fileType_def split_of_def a b c d)
  then show ?thesis
    using True
    by (simp add: Syntax_highlightSyntax_fileType_eq fileName_def pathName_def field_def)
qed

lemma onReady_total: "\<exists>r. onReady queryString = Inr r"
  by (simp add: onReady_def highlightSyntax_def highlightSyntax_fileType_eq
      Syntax_highlightSyntax_fileType_eq)

lemma highlightSyntax_configure_1_total:
  "\<exists>r. highlightSyntax_configure_1 fileType fslocText = Inr r"
proof (cases "sublist ''#!'' fslocText")
  case True
  then show ?thesis
    using highlightSyntax_configure_1_shebang [OF getExecutableType_1_shebang [OF True]]
    by simp
next
  case False
  then show ?thesis
    by (simp add: highlightSyntax_configure_1_no_shebang)
qed

lemma onReady_1_total: "\<exists>r. onReady_1 queryString fslocText = Inr r"
  using highlightSyntax_configure_1_total
  by (simp add: onReady_1_def isFileBlob_1_iff highlightSyntax_1_def
      Syntax_highlightSyntax_fileType_eq)

lemma isFileTypeValid_0_throws: "isFileTypeValid_0 fileType fslocText = Inl TypeError"
  by (simp add: isFileTypeValid_0_def)

lemma onReady_0_throws:
  assumes "sublist '';a=blob'' queryString" "sublist '';f='' queryString"
  shows "onReady_0 queryString fslocText = Inl TypeError"
proof -
  have "queryString \<noteq> []"
    using assms(1) by auto
  then show ?thesis
    using assms
    by (simp add: onReady_0_def isFileBlob_1_iff highlightSyntax_0_def
        Syntax_highlightSyntax_fileType_eq highlightSyntax_configure_0_def
        isFileTypeValid_0_throws)
qed

lemma getExecutableType_2_throws:
  "getExecutableType_2 fslocText =
     Inl (if sublist ''#!'' fslocText then ReferenceError else TypeError)"
proof (cases "sublist ''#!'' fslocText")
  case False
  then have "length (String_split fslocText ''#!'') = 1"
    by (simp add: String_split_no_marker)
  then have "at (String_split fslocText ''#!'') 1 = Undefined"
    by (simp add: at_def)
  then show ?thesis
    using False by (simp add: getExecutableType_2_def)
next
  case True
  define targetPath where "targetPath = String_split fslocText ''#!'' ! Suc 0"
  have "1 < length (String_split fslocText ''#!'')"
    using String_split_marker [of "''#!''" fslocText] True by simp
  then have p: "at (String_split fslocText ''#!'') (Suc 0) = Str targetPath"
    by (simp add: at_def targetPath_def)
  have c: "at (String_split targetPath ''/'') (getLastIndex (String_split targetPath ''/'')) =
      Str (last (String_split targetPath ''/''))"
    by (simp add: at_getLastIndex String_split_nonempty)
  show ?thesis
    using True by (simp add: getExecutableType_2_def p c LANG_NAMES_2_def Let_def)
qed

lemma onReady_2_shebang_throws:
  assumes "sublist '';a=blob'' queryString" "sublist '';f='' queryString"
    and "sublist ''#!'' fslocText"
  shows "onReady_2 queryString fslocText = Inl ReferenceError"
proof -
  have "queryString \<noteq> []"
    using assms(1) by auto
  moreover have "highlightSyntax_configure_2 fileType fslocText = Inl ReferenceError"
    for fileType
    using assms(3)
    by (simp add: highlightSyntax_configure_2_def isValidFileType_2_def isExecutable_1_iff
        getExecutableType_2_throws Let_def)
  ultimately show ?thesis
    using assms
    by (simp add: onReady_2_def isFileBlob_1_iff highlightSyntax_2_def
        Syntax_highlightSyntax_fileType_eq)
qed

lemma split_from_no_sep:
  "sep \<noteq> [] \<Longrightarrow> \<not> sublist sep s \<Longrightarrow> split_from sep cur s = [cur @ s]"
proof (induction sep cur s rule: split_from.induct)
  case (1 sep cur)
  then show ?case by simp
next
  case (2 sep cur c cs)
  then show ?case
    by (simp add: sublist_Cons_right)
qed

lemma split_from_first:
  assumes "sep \<noteq> []" "\<not> sublist sep (a @ butlast sep)"
  shows "split_from sep cur (a @ sep @ b) = (cur @ a) # split_from sep [] b"
  using assms(2)
proof (induction a arbitrary: cur)
  case Nil
  obtain c cs where sep: "sep = c # cs"
    using assms(1) by (cases sep) auto
  then show ?case
    by simp
next
  case (Cons x a)
  have np: "\<not> prefix sep (x # a @ butlast sep)" and ns: "\<not> sublist sep (a @ butlast sep)"
    using Cons.prems by (simp_all add: sublist_Cons_right)
  have "\<not> prefix sep (x # a @ sep @ b)"
  proof
    assume p: "prefix sep (x # a @ sep @ b)"
    have q: "prefix (x # a @ butlast sep) (x # a @ sep @ b)"
      using assms(1) by (metis Cons_prefix_Cons append_butlast_last_id append_assoc
          prefixI same_prefix_prefix)
    have "length sep \<le> length (x # a @ butlast sep)"
      by simp
    then have "prefix sep (x # a @ butlast sep)"
      using p q by (rule prefix_length_prefix [rotated 2])
    then show False
      using np by simp
  qed
  then show ?case
    using Cons.IH [OF ns, of "cur @ [x]"] by simp
qed

lemma hd_split_from:
  "\<exists>p. prefix p s \<and> hd (split_from sep cur s) = cur @ p
       \<and> (p = s \<or> prefix sep (drop (length p) s))"
proof (induction sep cur s rule: split_from.induct)
  case (1 sep cur)
  then show ?case by simp
next
  case (2 sep cur c cs)
  show ?case
  proof (cases "prefix sep (c # cs)")
    case True
    then have "prefix [] (c # cs) \<and> hd (split_from sep cur (c # cs)) = cur @ []
        \<and> ([] = c # cs \<or> prefix sep (drop (length ([] :: 'a list)) (c # cs)))"
      by simp
    then show ?thesis
      by blast
  next
    case False
    then obtain p where p: "prefix p cs" "hd (split_from sep (cur @ [c]) cs) = (cur @ [c]) @ p"
      "p = cs \<or> prefix sep (drop (length p) cs)"
      using 2 by blast
    then have "prefix (c # p) (c # cs) \<and> hd (split_from sep cur (c # cs)) = cur @ (c # p)
        \<and> (c # p = c # cs \<or> prefix sep (drop (length (c # p)) (c # cs)))"
      using False by simp
    then show ?thesis
      by blast
  qed
qed

lemma hd_split_char:
  "c \<notin> set a \<Longrightarrow> r = [] \<or> hd r = c \<Longrightarrow> hd (split_from [c] cur (a @ r)) = cur @ a"
proof (induction a arbitrary: cur)
  case Nil
  then show ?case
    by (cases r) auto
next
  case (Cons x a)
  then show ?case
    by auto
qed

lemma last_split_char:
  "c \<notin> set t \<Longrightarrow> last (split_from [c] cur (a @ c # t)) = t"
proof (induction a arbitrary: cur)
  case Nil
  then have "\<not> sublist [c] t"
    by (induction t) (auto simp: sublist_Cons_right)
  then show ?case
    by (simp add: split_from_no_sep)
next
  case (Cons x a)
  then show ?case
    by (auto simp: split_from_nonempty)
qed

lemma sublist_single: "sublist [c] t \<longleftrightarrow> c \<in> set t"
  by (induction t) (auto simp: sublist_Cons_right)

lemma hd_split_from_Nil:
  "\<exists>p. prefix p (path @ rest) \<and> hd (split_from sep [] (path @ rest)) = p
     \<and> (p = path @ rest \<or> prefix sep (drop (length p) (path @ rest)))"
  using hd_split_from [of "path @ rest" sep "[]"] by simp

lemma sep_not_inside:
  assumes "c \<notin> set path" "prefix (c # sep') (drop n (path @ rest))"
  shows "length path \<le> n"
proof (rule ccontr)
  assume "\<not> length path \<le> n"
  then have l: "n < length path"
    by simp
  then have a: "prefix (c # sep') (drop n path @ rest)"
    using assms(2) by simp
  obtain x xs where b: "drop n path = x # xs"
    using l by (cases "drop n path") simp_all
  have "x \<in> set (drop n path)"
    unfolding b by simp
  then have "x \<in> set path"
    by (rule in_set_dropD)
  moreover have "c = x"
    using a unfolding b by simp
  ultimately show False
    using assms(1) by simp
qed

lemma prefix_beyond:
  assumes "prefix p (path @ rest)" "length path \<le> length p"
  shows "\<exists>r1. p = path @ r1 \<and> prefix r1 rest"
proof -
  have "prefix p path \<or> (\<exists>us. p = path @ us \<and> prefix us rest)"
    using assms(1) by (simp add: prefix_append)
  then show ?thesis
  proof
    assume "prefix p path"
    then obtain zs where "path = p @ zs"
      unfolding prefix_def by blast
    then have "p = path @ [] \<and> prefix [] rest"
      using assms(2) by simp
    then show ?thesis
      by (rule exI)
  next
    assume "\<exists>us. p = path @ us \<and> prefix us rest"
    then show ?thesis .
  qed
qed


lemma field_of_path:
  assumes "CHR '';'' \<notin> set path" and "rest = [] \<or> hd rest = CHR '';''"
  shows "hd (String_split (hd (split_from '';f='' [] (path @ rest))) '';'') = path"
proof -
  obtain p where p1: "prefix p (path @ rest)"
    and p2: "hd (split_from '';f='' [] (path @ rest)) = p"
    and p3: "p = path @ rest \<or> prefix '';f='' (drop (length p) (path @ rest))"
    using hd_split_from_Nil [of path rest "'';f=''"] by (elim exE conjE)
  have len: "length path \<le> length p"
    using p3
  proof
    assume "p = path @ rest"
    then show ?thesis by simp
  next
    assume a: "prefix '';f='' (drop (length p) (path @ rest))"
    show ?thesis
      by (rule sep_not_inside [OF assms(1) a])
  qed
  obtain r1 where r1: "p = path @ r1" "prefix r1 rest"
    using prefix_beyond [OF p1 len] by (elim exE conjE)
  have "r1 = [] \<or> hd r1 = CHR '';''"
  proof (cases r1)
    case Nil
    then show ?thesis by simp
  next
    case (Cons x xs)
    then obtain zs where "rest = x # xs @ zs"
      using r1(2) unfolding prefix_def by auto
    then show ?thesis
      using assms(2) Cons by simp
  qed
  then have "hd (split_from '';'' [] (path @ r1)) = path"
    using hd_split_char [OF assms(1), of r1 "[]"] by simp
  then show ?thesis
    by (simp add: p2 r1(1) String_split_def)
qed

lemma fileType_of_path:
  assumes pre: "\<not> sublist '';f='' (pre @ '';f'')"
    and path: "CHR '';'' \<notin> set (dir @ base @ ''.'' @ tok)"
    and rest: "rest = [] \<or> hd rest = CHR '';''"
    and dir: "dir = [] \<or> last dir = CHR ''/''"
    and name: "CHR ''/'' \<notin> set (base @ ''.'' @ tok)"
    and tok: "CHR ''.'' \<notin> set tok"
  shows "Syntax_highlightSyntax_fileType (pre @ '';f='' @ dir @ base @ ''.'' @ tok @ rest) =
    Inr (Some (Str tok))"
proof -
  define name where "name = base @ ''.'' @ tok"
  define path where "path = dir @ name"
  define q where "q = pre @ '';f='' @ path @ rest"
  have s: "sublist '';f='' q"
    unfolding q_def by (rule sublist_appendI)
  have "split_from '';f='' [] (pre @ '';f='' @ (path @ rest)) =
      ([] @ pre) # split_from '';f='' [] (path @ rest)"
    using pre by (intro split_from_first) simp_all
  then have "String_split q '';f='' ! Suc 0 = hd (split_from '';f='' [] (path @ rest))"
    by (simp add: String_split_def q_def hd_conv_nth split_from_nonempty)
  then have f: "hd (String_split (String_split q '';f='' ! Suc 0) '';'') = path"
    using field_of_path [of path rest] path rest by (simp add: path_def name_def)
  have slash: "CHR ''/'' \<notin> set name"
    using name by (simp add: name_def)
  have n: "last (String_split path ''/'') = name"
  proof (cases "dir = []")
    case True
    have "\<not> sublist ''/'' name"
      using slash unfolding sublist_single .
    then show ?thesis
      using True by (simp add: path_def String_split_def split_from_no_sep)
  next
    case False
    then have "dir = butlast dir @ ''/''"
      using dir by (metis append_butlast_last_id)
    then obtain d where "dir = d @ ''/''" ..
    then show ?thesis
      using last_split_char [OF slash, of "[]" d]
      by (simp add: path_def String_split_def)
  qed
  have t: "last (String_split name ''.'') = tok"
    using last_split_char [OF tok, of "[]" base] by (simp add: String_split_def name_def)
  have "Syntax_highlightSyntax_fileType q = Inr (Some (Str tok))"
    using s by (simp add: Syntax_highlightSyntax_fileType_eq f n t)
  then show ?thesis
    by (simp add: q_def path_def name_def)
qed

lemma isFileTypeSynonym_loop_iff:
  "isFileTypeSynonym_loop table v \<longleftrightarrow> (\<exists>(k, syns) \<in> set table. v \<in> Str ` set syns)"
  by (induction table v rule: isFileTypeSynonym_loop.induct)
     (auto simp: indexOf_absent)

lemma fileType_examples:
  "Syntax_highlightSyntax_fileType '';a=blob;f=data.json'' = Inr (Some (Str ''json''))"
  "Syntax_highlightSyntax_fileType '';a=blob;f=src/main.c'' = Inr (Some (Str ''c''))"
  "Syntax_highlightSyntax_fileType '';a=blob;f=README.txt'' = Inr (Some (Str ''txt''))"
  "Syntax_highlightSyntax_fileType '';a=blob;f=doc/notes.markdown;hb=HEAD'' =
     Inr (Some (Str ''markdown''))"
  by (simp_all add: Syntax_highlightSyntax_fileType_def String_split_def getLastIndex_def
      toBool_def at_def)


lemma getPrimaryFileType_loop_unique:
  assumes "(k, syns) \<in> set table" and "t \<in> set syns"
    and disj: "\<And>k1 s1 k2 s2. (k1, s1) \<in> set table \<Longrightarrow> (k2, s2) \<in> set table \<Longrightarrow>
      k1 \<noteq> k2 \<Longrightarrow> set s1 \<inter> set s2 = {}"
  shows "getPrimaryFileType_loop table (Str t) = Str k"
  using assms
proof (induction table)
  case Nil
  then show ?case by simp
next
  case (Cons entry table)
  obtain k0 s0 where entry: "entry = (k0, s0)"
    by (cases entry)
  show ?case
  proof (cases "t \<in> set s0")
    case True
    have "k0 = k"
    proof (rule ccontr)
      assume ne: "k0 \<noteq> k"
      have "(k0, s0) \<in> set (entry # table)"
        using entry by simp
      then have "set s0 \<inter> set syns = {}"
        using Cons.prems(1) ne by (rule Cons.prems(3))
      then show False
        using True Cons.prems(2) by auto
    qed
    then show ?thesis
      using True entry by (simp add: indexOf_absent image_iff)
  next
    case False
    then have m: "(k, syns) \<in> set table"
      using Cons.prems(1,2) entry by auto
    have "getPrimaryFileType_loop table (Str t) = Str k"
    proof (rule Cons.IH [OF m Cons.prems(2)])
      fix k1 s1 k2 s2
      assume "(k1, s1) \<in> set table" "(k2, s2) \<in> set table" "k1 \<noteq> k2"
      then show "set s1 \<inter> set s2 = {}"
        using Cons.prems(3) [of k1 s1 k2 s2] by simp
    qed
    then show ?thesis
      using False entry by (simp add: indexOf_absent image_iff)
  qed
qed

lemma synonyms_disjoint:
  assumes "(k1, s1) \<in> set VALID_FILE_TYPE_SYNONYMS" "(k2, s2) \<in> set VALID_FILE_TYPE_SYNONYMS"
    and "k1 \<noteq> k2"
  shows "set s1 \<inter> set s2 = {}"
proof -
  have "\<forall>(k1, s1) \<in> set VALID_FILE_TYPE_SYNONYMS. \<forall>(k2, s2) \<in> set VALID_FILE_TYPE_SYNONYMS.
     k1 \<noteq> k2 \<longrightarrow> set s1 \<inter> set s2 = {}"
    by (simp add: VALID_FILE_TYPE_SYNONYMS_def)
  from bspec [OF bspec [OF this assms(1), unfolded prod.case] assms(2), unfolded prod.case]
  show ?thesis
    using assms(3) by (rule mp)
qed

lemma synonyms_2_disjoint:
  assumes "(k1, s1) \<in> set LANG_FILE_TYPE_SYNONYMS_2" "(k2, s2) \<in> set LANG_FILE_TYPE_SYNONYMS_2"
    and "k1 \<noteq> k2"
  shows "set s1 \<inter> set s2 = {}"
proof -
  have "\<forall>(k1, s1) \<in> set LANG_FILE_TYPE_SYNONYMS_2. \<forall>(k2, s2) \<in> set LANG_FILE_TYPE_SYNONYMS_2.
     k1 \<noteq> k2 \<longrightarrow> set s1 \<inter> set s2 = {}"
    by (simp add: LANG_FILE_TYPE_SYNONYMS_2_def)
  from bspec [OF bspec [OF this assms(1), unfolded prod.case] assms(2), unfolded prod.case]
  show ?thesis
    using assms(3) by (rule mp)
qed

lemma getPrimaryFileType_of_synonym:
  assumes "(k, syns) \<in> set VALID_FILE_TYPE_SYNONYMS" "t \<in> set syns"
  shows "getPrimaryFileType (Str t) = Str k"
  unfolding getPrimaryFileType_def
  using assms synonyms_disjoint by (rule getPrimaryFileType_loop_unique)

lemma getPrimaryFileType_2_of_synonym:
  assumes "(k, syns) \<in> set LANG_FILE_TYPE_SYNONYMS_2" "t \<in> set syns"
  shows "getPrimaryFileType_loop LANG_FILE_TYPE_SYNONYMS_2 (Str t) = Str k"
  using assms synonyms_2_disjoint by (rule getPrimaryFileType_loop_unique)

lemma highlightSyntax_configure_1_shebangFileType:
  "highlightSyntax_configure_1 fileType fslocText =
     bindE (isFileTypeValid_1 fileType fslocText) (\<lambda>valid.
     if \<not> valid then Inr None
     else
       bindE (shebangFileType_1 fslocText) (\<lambda>override.
       bindE (case override of
                Some t \<Rightarrow> Inr t
              | None \<Rightarrow>
                  bindE (inArray fileType (ArrayOf VALID_FILE_TYPES_1)) (\<lambda>primary.
                    if \<not> primary then getPrimaryFileType_1 fileType
                    else Inr fileType)) (\<lambda>fileType.
       bindE (getFileTypeAssocs_1 fileType) (\<lambda>languages.
       Inr (Some languages)))))"
proof -
  have e: "bindE (isExecutable_1 fslocText) (\<lambda>executable.
       bindE (if executable
              then bindE (getExecutableType_1 fslocText) (\<lambda>t.
                     Inr (getProperty VALID_LANG_ASSOC_FILE_TYPES_1 t))
              else bindE (inArray fileType (ArrayOf VALID_FILE_TYPES_1)) (\<lambda>primary.
                     if \<not> primary then getPrimaryFileType_1 fileType
                     else Inr fileType)) (\<lambda>fileType.
       bindE (getFileTypeAssocs_1 fileType) (\<lambda>languages.
       Inr (Some languages)))) =
     bindE (shebangFileType_1 fslocText) (\<lambda>override.
       bindE (case override of
                Some t \<Rightarrow> Inr t
              | None \<Rightarrow>
                  bindE (inArray fileType (ArrayOf VALID_FILE_TYPES_1)) (\<lambda>primary.
                    if \<not> primary then getPrimaryFileType_1 fileType
                    else Inr fileType)) (\<lambda>fileType.
       bindE (getFileTypeAssocs_1 fileType) (\<lambda>languages.
       Inr (Some languages))))"
  proof (cases "sublist ''#!'' fslocText")
    case True
    then show ?thesis
      by (simp add: shebangFileType_1_def isExecutable_1_iff getExecutableType_1_shebang)
  next
    case False
    then show ?thesis
      by (simp add: shebangFileType_1_def isExecutable_1_iff)
  qed
  show ?thesis
    unfolding highlightSyntax_configure_1_def e ..
qed

lemma shebangFileType_1_no_shebang:
  "\<not> sublist ''#!'' fslocText \<Longrightarrow> shebangFileType_1 fslocText = Inr None"
  by (simp add: shebangFileType_1_def isExecutable_1_iff)

section \<open>Claims\<close>

text \<open>
  C8. The page classifier \<open>isFileBlob\<close> returns true exactly for the identifiers that are
  non-empty and contain the marker \<open>;a=blob\<close>; it returns false for the empty string
  and true for \<open>;a=blob;f=src/main.c\<close>. This holds of \<open>isFileBlob\<close> in \<open>syntax.js\<close>
  and of \<open>Syntax.isFileBlob\<close> in \<open>part_001\<close>.
\<close>

theorem C8_isFileBlob_iff_marker:
  "(isFileBlob q \<longleftrightarrow> q \<noteq> [] \<and> sublist '';a=blob'' q)
   \<and> isFileBlob_1 q = Inr (q \<noteq> [] \<and> sublist '';a=blob'' q)
   \<and> isFileBlob [] = False
   \<and> isFileBlob '';a=blob;f=src/main.c'' = True
   \<and> isFileBlob_1 [] = Inr False
   \<and> isFileBlob_1 '';a=blob;f=src/main.c'' = Inr True"
proof -
  have iff: "isFileBlob q \<longleftrightarrow> sublist '';a=blob'' q" for q
    using String_split_sublist [of "'';a=blob''" q] by (auto simp: isFileBlob_def Let_def)
  have ne: "sublist '';a=blob'' q \<longleftrightarrow> q \<noteq> [] \<and> sublist '';a=blob'' q" for q
    by auto
  have ex: "sublist '';a=blob'' '';a=blob;f=src/main.c''"
    by (simp add: sublist_Cons_right)
  have a: "isFileBlob q \<longleftrightarrow> q \<noteq> [] \<and> sublist '';a=blob'' q"
    using iff [of q] ne [of q] by simp
  have b: "isFileBlob_1 q = Inr (q \<noteq> [] \<and> sublist '';a=blob'' q)"
    using ne [of q] by (simp add: isFileBlob_1_iff)
  have c: "isFileBlob [] = False" "isFileBlob '';a=blob;f=src/main.c'' = True"
    using ex by (simp_all add: iff)
  have d: "isFileBlob_1 [] = Inr False" "isFileBlob_1 '';a=blob;f=src/main.c'' = Inr True"
    using ex by (simp_all add: isFileBlob_1_iff)
  show ?thesis
    using a b c d by (intro conjI)
qed


text \<open>
  C6. For every type \<open>t\<close> the association expander returns a sequence of length at
  least one whose first element is \<open>t\<close>; when \<open>t\<close> is a key of the association table
  the rest is the associated types in the order declared, otherwise the result is
  \<open>[t]\<close>: \<open>html\<close> expands to \<open>html, css, js, php\<close> and \<open>c\<close> to \<open>c\<close>. This holds of
  \<open>getFileTypeAssocs\<close> (\<open>syntax.js\<close>) and of \<open>getFileTypeAssocations\<close> (\<open>part_002\<close>).
\<close>

theorem C6_association_expander:
  "1 \<le> length (getFileTypeAssocs (Str t))
   \<and> hd (getFileTypeAssocs (Str t)) = Str t
   \<and> (\<forall>assocs. (t, assocs) \<in> set VALID_FILE_TYPE_ASSOCS \<longrightarrow>
         getFileTypeAssocs (Str t) = Str t # map Str assocs)
   \<and> (t \<notin> set (Object_keys VALID_FILE_TYPE_ASSOCS) \<longrightarrow> getFileTypeAssocs (Str t) = [Str t])
   \<and> getFileTypeAssocs (Str ''html'') = [Str ''html'', Str ''css'', Str ''js'', Str ''php'']
   \<and> getFileTypeAssocs (Str ''c'') = [Str ''c'']
   \<and> (\<forall>assocs. (t, assocs) \<in> set FILE_TYPE_ASSOCIATIONS_2 \<longrightarrow>
         getFileTypeAssocations_2 (Str t) = Inr (Str t # map Str assocs))
   \<and> (t \<notin> set (Object_keys FILE_TYPE_ASSOCIATIONS_2) \<longrightarrow>
         getFileTypeAssocations_2 (Str t) = Inr [Str t])
   \<and> getFileTypeAssocations_2 (Str ''html'') = Inr [Str ''html'', Str ''css'', Str ''js'', Str ''php'']
   \<and> getFileTypeAssocations_2 (Str ''c'') = Inr [Str ''c'']"
proof -
  have key: "map_of table k = Some assocs"
    if "(k, assocs) \<in> set table" "distinct (map fst table)"
    for table :: "(string \<times> string list) list" and k assocs
    using that by simp
  have nokey: "map_of table k = None" if "k \<notin> set (Object_keys table)"
    for table :: "(string \<times> string list) list" and k
    using that by (simp add: Object_keys_def map_of_eq_None_iff)
  have d: "distinct (map fst VALID_FILE_TYPE_ASSOCS)"
    by (simp add: VALID_FILE_TYPE_ASSOCS_def)
  have d2: "distinct (map fst FILE_TYPE_ASSOCIATIONS_2)"
    by (simp add: FILE_TYPE_ASSOCIATIONS_2_def)
  have a: "1 \<le> length (getFileTypeAssocs (Str t))" "hd (getFileTypeAssocs (Str t)) = Str t"
    by (simp_all add: getFileTypeAssocs_def getFileTypeAssocs_of_Str)
  have b: "getFileTypeAssocs (Str t) = Str t # map Str assocs"
    if "(t, assocs) \<in> set VALID_FILE_TYPE_ASSOCS" for assocs
    using key [OF that d] by (simp add: getFileTypeAssocs_def getFileTypeAssocs_of_Str)
  have c: "getFileTypeAssocs (Str t) = [Str t]"
    if "t \<notin> set (Object_keys VALID_FILE_TYPE_ASSOCS)"
    using nokey [OF that] by (simp add: getFileTypeAssocs_def getFileTypeAssocs_of_Str)
  have e: "getFileTypeAssocs (Str ''html'') = [Str ''html'', Str ''css'', Str ''js'', Str ''php'']"
    "getFileTypeAssocs (Str ''c'') = [Str ''c'']"
    by (simp_all add: getFileTypeAssocs_def getFileTypeAssocs_of_Str VALID_FILE_TYPE_ASSOCS_def)
  have b2: "getFileTypeAssocations_2 (Str t) = Inr (Str t # map Str assocs)"
    if "(t, assocs) \<in> set FILE_TYPE_ASSOCIATIONS_2" for assocs
    using key [OF that d2]
    by (simp add: getFileTypeAssocations_2_def Syntax_getFileTypeAssocs_eq getFileTypeAssocs_of_Str)
  have c2: "getFileTypeAssocations_2 (Str t) = Inr [Str t]"
    if "t \<notin> set (Object_keys FILE_TYPE_ASSOCIATIONS_2)"
    using nokey [OF that]
    by (simp add: getFileTypeAssocations_2_def Syntax_getFileTypeAssocs_eq getFileTypeAssocs_of_Str)
  have e2: "getFileTypeAssocations_2 (Str ''html'') = Inr [Str ''html'', Str ''css'', Str ''js'', Str ''php'']"
    "getFileTypeAssocations_2 (Str ''c'') = Inr [Str ''c'']"
    by (simp_all add: getFileTypeAssocations_2_def Syntax_getFileTypeAssocs_eq
        getFileTypeAssocs_of_Str FILE_TYPE_ASSOCIATIONS_2_def)
  show ?thesis
    using a b c e b2 c2 e2 by blast
qed

theorem C6_association_expander_witness:
  "(''php'', [''css'', ''html'', ''js'']) \<in> set VALID_FILE_TYPE_ASSOCS
   \<and> getFileTypeAssocs (Str ''php'') = [Str ''php'', Str ''css'', Str ''html'', Str ''js'']
   \<and> ''xml'' \<notin> set (Object_keys VALID_FILE_TYPE_ASSOCS)
   \<and> getFileTypeAssocs (Str ''xml'') = [Str ''xml'']
   \<and> (''javascript'', [''css'', ''html'', ''json'', ''php'']) \<in> set FILE_TYPE_ASSOCIATIONS_2
   \<and> getFileTypeAssocations_2 (Str ''javascript'') =
       Inr [Str ''javascript'', Str ''css'', Str ''html'', Str ''json'', Str ''php'']
   \<and> ''xml'' \<notin> set (Object_keys FILE_TYPE_ASSOCIATIONS_2)
   \<and> getFileTypeAssocations_2 (Str ''xml'') = Inr [Str ''xml'']"
proof -
  have k1: "(''php'', [''css'', ''html'', ''js'']) \<in> set VALID_FILE_TYPE_ASSOCS"
    by (simp add: VALID_FILE_TYPE_ASSOCS_def)
  have n1: "''xml'' \<notin> set (Object_keys VALID_FILE_TYPE_ASSOCS)"
    by (simp add: VALID_FILE_TYPE_ASSOCS_def Object_keys_def)
  have k2: "(''javascript'', [''css'', ''html'', ''json'', ''php'']) \<in> set FILE_TYPE_ASSOCIATIONS_2"
    by (simp add: FILE_TYPE_ASSOCIATIONS_2_def)
  have n2: "''xml'' \<notin> set (Object_keys FILE_TYPE_ASSOCIATIONS_2)"
    by (simp add: FILE_TYPE_ASSOCIATIONS_2_def Object_keys_def)
  show ?thesis
    using k1 n1 k2 n2 C6_association_expander [of "''php''"]
      C6_association_expander [of "''xml''"] C6_association_expander [of "''javascript''"]
    by simp
qed

text \<open>
  C9. In the synonym tables of the sources no file type token stands in the synonym
  arrays of two different keys: the arrays of two distinct keys are disjoint
  (\<open>VALID_FILE_TYPE_SYNONYMS\<close> of \<open>syntax.js\<close>, \<open>LANG_FILE_TYPE_SYNONYMS\<close> of \<open>part_002\<close>).
\<close>

theorem C9_synonym_sets_disjoint:
  "(\<forall>(k1, s1) \<in> set VALID_FILE_TYPE_SYNONYMS. \<forall>(k2, s2) \<in> set VALID_FILE_TYPE_SYNONYMS.
      k1 \<noteq> k2 \<longrightarrow> set s1 \<inter> set s2 = {})
   \<and> (\<forall>(k1, s1) \<in> set LANG_FILE_TYPE_SYNONYMS_2. \<forall>(k2, s2) \<in> set LANG_FILE_TYPE_SYNONYMS_2.
      k1 \<noteq> k2 \<longrightarrow> set s1 \<inter> set s2 = {})"
proof
  show "\<forall>(k1, s1) \<in> set VALID_FILE_TYPE_SYNONYMS. \<forall>(k2, s2) \<in> set VALID_FILE_TYPE_SYNONYMS.
      k1 \<noteq> k2 \<longrightarrow> set s1 \<inter> set s2 = {}"
    by (simp add: VALID_FILE_TYPE_SYNONYMS_def)
  show "\<forall>(k1, s1) \<in> set LANG_FILE_TYPE_SYNONYMS_2. \<forall>(k2, s2) \<in> set LANG_FILE_TYPE_SYNONYMS_2.
      k1 \<noteq> k2 \<longrightarrow> set s1 \<inter> set s2 = {}"
    by (simp add: LANG_FILE_TYPE_SYNONYMS_2_def)
qed

theorem C9_synonym_sets_disjoint_witness:
  "(''js'', [''jse'', ''json'']) \<in> set VALID_FILE_TYPE_SYNONYMS
   \<and> (''php'', [''php5'', ''phtml'']) \<in> set VALID_FILE_TYPE_SYNONYMS
   \<and> ''js'' \<noteq> ''php''
   \<and> set [''jse'', ''json''] \<inter> set [''php5'', ''phtml''] = {}
   \<and> (''bash'', [''bash'', ''csh'', ''ksh'', ''zsh'']) \<in> set LANG_FILE_TYPE_SYNONYMS_2
   \<and> (''perl'', [''cgi'', ''perl'']) \<in> set LANG_FILE_TYPE_SYNONYMS_2
   \<and> ''bash'' \<noteq> ''perl''
   \<and> set [''bash'', ''csh'', ''ksh'', ''zsh''] \<inter> set [''cgi'', ''perl''] = {}"
proof -
  have m: "(''js'', [''jse'', ''json'']) \<in> set VALID_FILE_TYPE_SYNONYMS"
    "(''php'', [''php5'', ''phtml'']) \<in> set VALID_FILE_TYPE_SYNONYMS"
    by (simp_all add: VALID_FILE_TYPE_SYNONYMS_def)
  have m2: "(''bash'', [''bash'', ''csh'', ''ksh'', ''zsh'']) \<in> set LANG_FILE_TYPE_SYNONYMS_2"
    "(''perl'', [''cgi'', ''perl'']) \<in> set LANG_FILE_TYPE_SYNONYMS_2"
    by (simp_all add: LANG_FILE_TYPE_SYNONYMS_2_def)
  have ne: "''js'' \<noteq> ''php''" "''bash'' \<noteq> ''perl''"
    by simp_all
  note a = conjunct1 [OF C9_synonym_sets_disjoint]
  note b = conjunct2 [OF C9_synonym_sets_disjoint]
  have "case (''php'', [''php5'', ''phtml'']) of (k2, s2) \<Rightarrow>
          ''js'' \<noteq> k2 \<longrightarrow> set [''jse'', ''json''] \<inter> set s2 = {}"
    using bspec [OF bspec [OF a m(1), unfolded prod.case] m(2)] .
  then have r1: "set [''jse'', ''json''] \<inter> set [''php5'', ''phtml''] = {}"
    unfolding prod.case using ne(1) by (rule mp)
  have "case (''perl'', [''cgi'', ''perl'']) of (k2, s2) \<Rightarrow>
          ''bash'' \<noteq> k2 \<longrightarrow> set [''bash'', ''csh'', ''ksh'', ''zsh''] \<inter> set s2 = {}"
    using bspec [OF bspec [OF b m2(1), unfolded prod.case] m2(2)] .
  then have r2: "set [''bash'', ''csh'', ''ksh'', ''zsh''] \<inter> set [''cgi'', ''perl''] = {}"
    unfolding prod.case using ne(2) by (rule mp)
  show ?thesis
    using m m2 ne r1 r2 by (intro conjI)
qed

text \<open>
  C7. End to end, the page identifier \<open>;a=blob;f=lib/app.php5\<close> with no shebang in the
  first line makes the highlighter receive exactly \<open>php, css, html, js\<close>: the synonym
  \<open>php5\<close> maps to \<open>php\<close>, whose associations follow in the order declared. This
  holds of \<open>syntax.js\<close>, which never reads the first line, and of \<open>part_001\<close> and
  \<open>part_002\<close> on every first line without \<open>#!\<close>.
\<close>

theorem C7_end_to_end_php5:
  "onReady '';a=blob;f=lib/app.php5'' =
     Inr (Some [Str ''php'', Str ''css'', Str ''html'', Str ''js''])
   \<and> (\<forall>fslocText. \<not> sublist ''#!'' fslocText \<longrightarrow>
         onReady_1 '';a=blob;f=lib/app.php5'' fslocText =
           Inr (Some [Str ''php'', Str ''css'', Str ''html'', Str ''js''])
       \<and> onReady_2 '';a=blob;f=lib/app.php5'' fslocText =
           Inr (Some [Str ''php'', Str ''css'', Str ''html'', Str ''js'']))"
proof -
  have blob: "sublist '';a=blob'' '';a=blob;f=lib/app.php5''"
    by (simp add: sublist_Cons_right)
  have blob0: "isFileBlob '';a=blob;f=lib/app.php5''"
    using String_split_sublist [of "'';a=blob''" "'';a=blob;f=lib/app.php5''"] blob
    by (simp add: isFileBlob_def Let_def)
  have r0: "highlightSyntax_configure (Str ''php5'') =
      Some [Str ''php'', Str ''css'', Str ''html'', Str ''js'']"
    by (simp add: highlightSyntax_configure_eq VALID_FILE_TYPES_def isFileTypeSynonym_def
        getPrimaryFileType_def VALID_FILE_TYPE_SYNONYMS_def getFileTypeAssocs_def
        getFileTypeAssocs_of_Str VALID_FILE_TYPE_ASSOCS_def)
  have a: "onReady '';a=blob;f=lib/app.php5'' =
      Inr (Some [Str ''php'', Str ''css'', Str ''html'', Str ''js''])"
    using blob0 by (simp add: onReady_def highlightSyntax_def fileType_app_php5 r0)
  have r1: "highlightSyntax_configure_1 (Str ''php5'') fslocText =
      Inr (Some [Str ''php'', Str ''css'', Str ''html'', Str ''js''])"
    if "\<not> sublist ''#!'' fslocText" for fslocText
    using that
    by (simp add: highlightSyntax_configure_1_no_shebang VALID_FILE_TYPES_1_def
        isFileTypeSynonym_1_def VALID_FILE_TYPE_SYNONYMS_1_def getFileTypeAssocs_of_Str
        VALID_FILE_TYPE_ASSOCS_1_def)
  have r2: "highlightSyntax_configure_2 (Str ''php5'') fslocText =
      Inr (Some [Str ''php'', Str ''css'', Str ''html'', Str ''js''])"
    if "\<not> sublist ''#!'' fslocText" for fslocText
    using that
    by (simp add: highlightSyntax_configure_2_no_shebang LANG_PRIMARY_FILE_TYPES_2_def
        getKeys_def Object_keys_def
        isSynonymFileType_2_def LANG_FILE_TYPE_SYNONYMS_2_def getFileTypeAssocs_of_Str
        FILE_TYPE_ASSOCIATIONS_2_def)
  have b: "onReady_1 '';a=blob;f=lib/app.php5'' fslocText =
      Inr (Some [Str ''php'', Str ''css'', Str ''html'', Str ''js''])"
    if "\<not> sublist ''#!'' fslocText" for fslocText
    using blob r1 [OF that]
    by (simp add: onReady_1_def isFileBlob_1_iff highlightSyntax_1_def fileType_app_php5)
  have c: "onReady_2 '';a=blob;f=lib/app.php5'' fslocText =
      Inr (Some [Str ''php'', Str ''css'', Str ''html'', Str ''js''])"
    if "\<not> sublist ''#!'' fslocText" for fslocText
    using blob r2 [OF that]
    by (simp add: onReady_2_def isFileBlob_1_iff highlightSyntax_2_def fileType_app_php5)
  show ?thesis
    using a b c by blast
qed

theorem C7_end_to_end_php5_witness:
  "\<not> sublist ''#!'' ''<?php echo 1;''
   \<and> onReady_1 '';a=blob;f=lib/app.php5'' ''<?php echo 1;'' =
       Inr (Some [Str ''php'', Str ''css'', Str ''html'', Str ''js''])
   \<and> onReady_2 '';a=blob;f=lib/app.php5'' ''<?php echo 1;'' =
       Inr (Some [Str ''php'', Str ''css'', Str ''html'', Str ''js''])"
proof -
  have n: "\<not> sublist ''#!'' ''<?php echo 1;''"
    by (simp add: sublist_Cons_right)
  from C7_end_to_end_php5 have
    "\<forall>fslocText. \<not> sublist ''#!'' fslocText \<longrightarrow>
         onReady_1 '';a=blob;f=lib/app.php5'' fslocText =
           Inr (Some [Str ''php'', Str ''css'', Str ''html'', Str ''js''])
       \<and> onReady_2 '';a=blob;f=lib/app.php5'' fslocText =
           Inr (Some [Str ''php'', Str ''css'', Str ''html'', Str ''js''])"
    by (rule conjunct2)
  then show ?thesis
    using n by blast
qed

text \<open>
  C3. The shebang resolver of \<open>part_001\<close>, \<open>getExecutableType\<close> behind its guard
  \<open>isExecutable\<close> and mapped through \<open>VALID_LANG_ASSOC_FILE_TYPES\<close>, returns the file
  types of \<open>perl\<close> and \<open>python\<close>, \<open>pl\<close> and \<open>py\<close>, on \<open>#!/usr/bin/perl -w\<close> (the
  direct case) and \<open>#!/usr/bin/env python -c\<close> (the indirection case); on every
  text without the marker \<open>#!\<close>, such as \<open>no shebang here\<close>, it returns no type and
  does not throw.
\<close>

theorem C3_shebang_resolver:
  "(\<forall>fslocText. \<not> sublist ''#!'' fslocText \<longrightarrow> shebangFileType_1 fslocText = Inr None)
   \<and> shebangFileType_1 ''no shebang here'' = Inr None
   \<and> getExecutableType_1 ''#!/usr/bin/perl -w'' = Inr (Str ''perl'')
   \<and> shebangFileType_1 ''#!/usr/bin/perl -w'' = Inr (Some (Str ''pl''))
   \<and> getExecutableType_1 ''#!/usr/bin/env python -c'' = Inr (Str ''python'')
   \<and> shebangFileType_1 ''#!/usr/bin/env python -c'' = Inr (Some (Str ''py''))
   \<and> ''pl'' \<in> set VALID_FILE_TYPES_1
   \<and> ''py'' \<in> set VALID_FILE_TYPES_1"
proof -
  have n: "\<not> sublist ''#!'' ''no shebang here''"
    by (simp add: sublist_Cons_right)
  have s: "sublist ''#!'' ''#!/usr/bin/perl -w''" "sublist ''#!'' ''#!/usr/bin/env python -c''"
    by (simp_all add: sublist_Cons_right)
  have a: "shebangFileType_1 ''no shebang here'' = Inr None"
    using n by (rule shebangFileType_1_no_shebang)
  have b: "shebangFileType_1 ''#!/usr/bin/perl -w'' = Inr (Some (Str ''pl''))"
    using s(1)
    by (simp add: shebangFileType_1_def isExecutable_1_iff getExecutableType_1_examples
        getProperty_examples)
  have c: "shebangFileType_1 ''#!/usr/bin/env python -c'' = Inr (Some (Str ''py''))"
    using s(2)
    by (simp add: shebangFileType_1_def isExecutable_1_iff getExecutableType_1_examples
        getProperty_examples)
  have v: "''pl'' \<in> set VALID_FILE_TYPES_1" "''py'' \<in> set VALID_FILE_TYPES_1"
    by (simp_all add: VALID_FILE_TYPES_1_def)
  have g: "\<forall>fslocText. \<not> sublist ''#!'' fslocText \<longrightarrow> shebangFileType_1 fslocText = Inr None"
    by (simp add: shebangFileType_1_no_shebang)
  show ?thesis
    using g a getExecutableType_1_examples(1) b getExecutableType_1_examples(2) c v
    by (intro conjI)
qed

theorem C3_shebang_resolver_witness:
  "\<not> sublist ''#!'' ''int main(void) { return 0; }''
   \<and> shebangFileType_1 ''int main(void) { return 0; }'' = Inr None"
proof -
  have n: "\<not> sublist ''#!'' ''int main(void) { return 0; }''"
    by (simp add: sublist_Cons_right)
  note g = conjunct1 [OF C3_shebang_resolver]
  note r = mp [OF spec [OF g] n]
  show ?thesis
    using n r by (intro conjI)
qed

text \<open>
  C2. Whenever the shebang of the first line resolves (\<open>getExecutableType\<close> returns a
  language name that \<open>VALID_LANG_ASSOC_FILE_TYPES\<close> maps to a file type \<open>c\<close>), the type
  handed to \<open>getFileTypeAssocs\<close> is \<open>c\<close>, whatever file type token the page
  identifier yields, recognised or not, equal to \<open>c\<close> or not: the highlighter gets the
  expansion of \<open>c\<close>, from \<open>highlightSyntax\<close> and, on a blob view, from \<open>onReady\<close>.
  In particular \<open>foo.txt\<close> with the first line \<open>#!/bin/bash\<close> gets the expansion of
  \<open>sh\<close>, the file type of \<open>bash\<close>.
\<close>

theorem C2_shebang_overrides_extension:
  "(\<forall>queryString fileType fslocText name c.
      Syntax_highlightSyntax_fileType queryString = Inr (Some fileType)
      \<and> getExecutableType_1 fslocText = Inr (Str name)
      \<and> getProperty VALID_LANG_ASSOC_FILE_TYPES_1 (Str name) = Str c
      \<longrightarrow> (\<exists>languages. getFileTypeAssocs_1 (Str c) = Inr languages
             \<and> hd languages = Str c
             \<and> highlightSyntax_1 queryString fslocText = Inr (Some languages)
             \<and> (isFileBlob_1 queryString = Inr True \<longrightarrow>
                  onReady_1 queryString fslocText = Inr (Some languages))))
   \<and> getExecutableType_1 ''#!/bin/bash'' = Inr (Str ''bash'')
   \<and> getProperty VALID_LANG_ASSOC_FILE_TYPES_1 (Str ''bash'') = Str ''sh''
   \<and> onReady_1 '';a=blob;f=foo.txt'' ''#!/bin/bash'' = Inr (Some [Str ''sh''])"
proof -
  have gen: "\<exists>languages. getFileTypeAssocs_1 (Str c) = Inr languages
             \<and> hd languages = Str c
             \<and> highlightSyntax_1 queryString fslocText = Inr (Some languages)
             \<and> (isFileBlob_1 queryString = Inr True \<longrightarrow>
                  onReady_1 queryString fslocText = Inr (Some languages))"
    if q: "Syntax_highlightSyntax_fileType queryString = Inr (Some fileType)"
      and e: "getExecutableType_1 fslocText = Inr (Str name)"
      and t: "getProperty VALID_LANG_ASSOC_FILE_TYPES_1 (Str name) = Str c"
    for queryString fileType fslocText name c
  proof -
    define languages where "languages = getFileTypeAssocs_of VALID_FILE_TYPE_ASSOCS_1 (Str c)"
    have "Str name \<in> Str ` set VALID_LANG_NAMES_1"
      using getExecutableType_1_range [OF e] by simp
    then have "name \<noteq> []"
      by (auto simp: VALID_LANG_NAMES_1_def)
    then have "highlightSyntax_configure_1 fileType fslocText = Inr (Some languages)"
      by (simp add: highlightSyntax_configure_1_shebang [OF e] t languages_def)
    then have h: "highlightSyntax_1 queryString fslocText = Inr (Some languages)"
      by (simp add: highlightSyntax_1_def q)
    have "queryString \<noteq> []"
      using q by (auto simp: Syntax_highlightSyntax_fileType_eq split: if_splits)
    then have o: "isFileBlob_1 queryString = Inr True \<longrightarrow>
        onReady_1 queryString fslocText = Inr (Some languages)"
      by (simp add: onReady_1_def h)
    have g: "getFileTypeAssocs_1 (Str c) = Inr languages"
      by (simp add: getFileTypeAssocs_1_def Syntax_getFileTypeAssocs_eq languages_def)
    have "hd languages = Str c"
      by (simp add: getFileTypeAssocs_of_Str languages_def)
    then have "getFileTypeAssocs_1 (Str c) = Inr languages
             \<and> hd languages = Str c
             \<and> highlightSyntax_1 queryString fslocText = Inr (Some languages)
             \<and> (isFileBlob_1 queryString = Inr True \<longrightarrow>
                  onReady_1 queryString fslocText = Inr (Some languages))"
      using g h o by (intro conjI)
    then show ?thesis
      by (rule exI)
  qed
  have blob: "sublist '';a=blob'' '';a=blob;f=foo.txt''"
    by (simp add: sublist_Cons_right)
  have ft: "Syntax_highlightSyntax_fileType '';a=blob;f=foo.txt'' = Inr (Some (Str ''txt''))"
    by (simp add: Syntax_highlightSyntax_fileType_def String_split_def getLastIndex_def
        toBool_def at_def)
  have "highlightSyntax_configure_1 (Str ''txt'') ''#!/bin/bash'' = Inr (Some [Str ''sh''])"
    by (simp add: highlightSyntax_configure_1_shebang [OF getExecutableType_1_examples(3)]
        getProperty_examples getFileTypeAssocs_of_Str VALID_FILE_TYPE_ASSOCS_1_def)
  then have ex: "onReady_1 '';a=blob;f=foo.txt'' ''#!/bin/bash'' = Inr (Some [Str ''sh''])"
    using blob by (simp add: onReady_1_def isFileBlob_1_iff highlightSyntax_1_def ft)
  show ?thesis
    using gen ex getExecutableType_1_examples(3) getProperty_examples(3)
    by (intro conjI allI impI; (elim conjE)?) 
qed

theorem C2_shebang_overrides_extension_witness:
  "Syntax_highlightSyntax_fileType '';a=blob;f=lib/app.php5'' = Inr (Some (Str ''php5''))
   \<and> getExecutableType_1 ''#!/usr/bin/perl -w'' = Inr (Str ''perl'')
   \<and> getProperty VALID_LANG_ASSOC_FILE_TYPES_1 (Str ''perl'') = Str ''pl''
   \<and> isFileBlob_1 '';a=blob;f=lib/app.php5'' = Inr True
   \<and> getFileTypeAssocs_1 (Str ''pl'') = Inr [Str ''pl'']
   \<and> highlightSyntax_1 '';a=blob;f=lib/app.php5'' ''#!/usr/bin/perl -w'' = Inr (Some [Str ''pl''])
   \<and> onReady_1 '';a=blob;f=lib/app.php5'' ''#!/usr/bin/perl -w'' = Inr (Some [Str ''pl''])"
proof -
  note h = fileType_app_php5(2) getExecutableType_1_examples(1) getProperty_examples(1)
  have b: "isFileBlob_1 '';a=blob;f=lib/app.php5'' = Inr True"
    by (simp add: isFileBlob_1_iff sublist_Cons_right)
  have hyp: "Syntax_highlightSyntax_fileType '';a=blob;f=lib/app.php5'' = Inr (Some (Str ''php5''))
      \<and> getExecutableType_1 ''#!/usr/bin/perl -w'' = Inr (Str ''perl'')
      \<and> getProperty VALID_LANG_ASSOC_FILE_TYPES_1 (Str ''perl'') = Str ''pl''"
    using h by (intro conjI)
  note gen = conjunct1 [OF C2_shebang_overrides_extension]
  note inst = mp [OF spec [OF spec [OF spec [OF spec [OF spec [OF gen]]]]] hyp]
  then obtain languages where l: "getFileTypeAssocs_1 (Str ''pl'') = Inr languages"
    "highlightSyntax_1 '';a=blob;f=lib/app.php5'' ''#!/usr/bin/perl -w'' = Inr (Some languages)"
    "isFileBlob_1 '';a=blob;f=lib/app.php5'' = Inr True \<longrightarrow>
       onReady_1 '';a=blob;f=lib/app.php5'' ''#!/usr/bin/perl -w'' = Inr (Some languages)"
    by (elim exE conjE)
  have "getFileTypeAssocs_1 (Str ''pl'') = Inr [Str ''pl'']"
    by (simp add: getFileTypeAssocs_1_def Syntax_getFileTypeAssocs_eq getFileTypeAssocs_of_Str
        VALID_FILE_TYPE_ASSOCS_1_def)
  then have e: "languages = [Str ''pl'']"
    using l(1) by simp
  show ?thesis
    using h b l(1,2) mp [OF l(3) b] unfolding e by (intro conjI)
qed

text \<open>
  C1 says that a first line with the marker \<open>#!\<close> and an unrecognised interpreter
  leaves the type of the extension as the final type. The code of \<open>part_001\<close> does
  otherwise: \<open>getExecutableType\<close> returns \<open>null\<close>, and \<open>highlightSyntax\<close>, which tests
  \<open>isExecutable()\<close> alone, reads \<open>VALID_LANG_ASSOC_FILE_TYPES[null]\<close>, so the type handed
  on is \<open>undefined\<close>, not the \<open>php\<close> of the extension, which the same identifier gets
  with an empty first line. In \<open>part_002\<close> the same input stops at the undeclared
  \<open>LANG_NAMES\<close>.
\<close>

theorem C1_unrecognised_shebang_hands_on_undefined:
  "isExecutable_1 ''#!/usr/bin/unknown'' = Inr True
   \<and> getExecutableType_1 ''#!/usr/bin/unknown'' = Inr Null
   \<and> onReady_1 '';a=blob;f=foo.php'' '''' =
       Inr (Some [Str ''php'', Str ''css'', Str ''html'', Str ''js''])
   \<and> onReady_1 '';a=blob;f=foo.php'' ''#!/usr/bin/unknown'' = Inr (Some [Undefined])
   \<and> onReady_2 '';a=blob;f=foo.php'' ''#!/usr/bin/unknown'' = Inl ReferenceError"
proof -
  have blob: "sublist '';a=blob'' '';a=blob;f=foo.php''"
    by (simp add: sublist_Cons_right)
  have sb: "sublist ''#!'' ''#!/usr/bin/unknown''" "\<not> sublist ''#!'' ''''"
    by (simp_all add: sublist_Cons_right)
  have ft: "Syntax_highlightSyntax_fileType '';a=blob;f=foo.php'' = Inr (Some (Str ''php''))"
    by (simp add: Syntax_highlightSyntax_fileType_def String_split_def getLastIndex_def
        toBool_def at_def)
  have a: "isExecutable_1 ''#!/usr/bin/unknown'' = Inr True"
    using sb by (simp add: isExecutable_1_iff)
  have b: "onReady_1 '';a=blob;f=foo.php'' '''' =
       Inr (Some [Str ''php'', Str ''css'', Str ''html'', Str ''js''])"
    using blob sb(2)
    by (simp add: onReady_1_def isFileBlob_1_iff highlightSyntax_1_def ft
        highlightSyntax_configure_1_no_shebang VALID_FILE_TYPES_1_def getFileTypeAssocs_of_Str
        VALID_FILE_TYPE_ASSOCS_1_def)
  have c: "onReady_1 '';a=blob;f=foo.php'' ''#!/usr/bin/unknown'' = Inr (Some [Undefined])"
    using blob
    by (simp add: onReady_1_def isFileBlob_1_iff highlightSyntax_1_def ft
        highlightSyntax_configure_1_shebang [OF getExecutableType_1_examples(4)]
        VALID_FILE_TYPES_1_def getProperty_examples getFileTypeAssocs_of_not_Str)
  have e2: "getExecutableType_2 ''#!/usr/bin/unknown'' = Inl ReferenceError"
    by (simp add: getExecutableType_2_def String_split_def at_def getLastIndex_def toBool_def
        isWhiteSpace_def LANG_NAMES_2_def)
  have d: "onReady_2 '';a=blob;f=foo.php'' ''#!/usr/bin/unknown'' = Inl ReferenceError"
    using blob sb(1)
    by (simp add: onReady_2_def isFileBlob_1_iff highlightSyntax_2_def ft
        highlightSyntax_configure_2_def isValidFileType_2_def getKeys_def Object_keys_def
        LANG_PRIMARY_FILE_TYPES_2_def isExecutable_1_iff e2)
  show ?thesis
    using a b c d getExecutableType_1_examples(4) by (intro conjI)
qed

text \<open>
  C5 says that the pipeline never throws on a string identifier and a string first
  line. In \<open>part_000\<close> and \<open>part_002\<close> it does. In \<open>part_000\<close> \<open>isFileTypeValid\<close>
  hands the object \<open>LANG_PRIMARY_FILE_TYPES\<close> to \<open>inArray\<close>, which throws a
  \<open>TypeError\<close> on anything but an array: every blob view fails, here
  \<open>;a=blob;f=src/main.c\<close> with an empty first line. In \<open>part_002\<close> (and \<open>part_000\<close>)
  \<open>getExecutableType\<close> reads the undeclared \<open>LANG_NAMES\<close>: a \<open>ReferenceError\<close> on every
  first line with a shebang, here \<open>#!/bin/bash\<close>. The versions \<open>syntax.js\<close> and
  \<open>part_001\<close> never throw (lemmas \<open>onReady_total\<close>, \<open>onReady_1_total\<close>).
\<close>

theorem C5_pipeline_throws:
  "isFileTypeValid_0 (Str ''c'') '''' = Inl TypeError
   \<and> onReady_0 '';a=blob;f=src/main.c'' '''' = Inl TypeError
   \<and> getExecutableType_2 ''#!/bin/bash'' = Inl ReferenceError
   \<and> onReady_2 '';a=blob;f=run'' ''#!/bin/bash'' = Inl ReferenceError"
proof -
  have s: "sublist '';a=blob'' '';a=blob;f=src/main.c''" "sublist '';f='' '';a=blob;f=src/main.c''"
    "sublist '';a=blob'' '';a=blob;f=run''" "sublist '';f='' '';a=blob;f=run''"
    "sublist ''#!'' ''#!/bin/bash''"
    by (simp_all add: sublist_Cons_right)
  show ?thesis
    using s
    by (simp add: isFileTypeValid_0_throws onReady_0_throws getExecutableType_2_throws
        onReady_2_shebang_throws)
qed

text \<open>
  C4. As stated, the claim fails in its consequence for the synonym sets: in
  \<open>syntax.js\<close> the token \<open>json\<close> stands in the synonym array of \<open>js\<close> and is itself in
  \<open>VALID_FILE_TYPES\<close>, so a path ending in \<open>.json\<close> resolves to \<open>json\<close> (highlighted
  as \<open>json, js\<close>), not to \<open>js\<close>.
\<close>

theorem C4_json_counterexample:
  "(''js'', [''jse'', ''json'']) \<in> set VALID_FILE_TYPE_SYNONYMS
   \<and> ''json'' \<in> set [''jse'', ''json'']
   \<and> highlightSyntax_fileType '';a=blob;f=data.json'' = Inr (Some (Str ''json''))
   \<and> highlightSyntax '';a=blob;f=data.json'' = Inr (Some [Str ''json'', Str ''js''])
   \<and> getFileTypeAssocs (Str ''js'') = [Str ''js'']
   \<and> highlightSyntax '';a=blob;f=data.json'' \<noteq> Inr (Some (getFileTypeAssocs (Str ''js'')))"
proof -
  have a: "(''js'', [''jse'', ''json'']) \<in> set VALID_FILE_TYPE_SYNONYMS"
    by (simp add: VALID_FILE_TYPE_SYNONYMS_def)
  have b: "highlightSyntax_fileType '';a=blob;f=data.json'' = Inr (Some (Str ''json''))"
    by (simp add: highlightSyntax_fileType_eq fileType_examples)
  have c: "highlightSyntax_configure (Str ''json'') = Some [Str ''json'', Str ''js'']"
    by (simp add: highlightSyntax_configure_eq VALID_FILE_TYPES_def getFileTypeAssocs_def
        getFileTypeAssocs_of_Str VALID_FILE_TYPE_ASSOCS_def)
  have d: "highlightSyntax '';a=blob;f=data.json'' = Inr (Some [Str ''json'', Str ''js''])"
    by (simp add: highlightSyntax_def b c)
  have e: "getFileTypeAssocs (Str ''js'') = [Str ''js'']"
    by (simp add: getFileTypeAssocs_def getFileTypeAssocs_of_Str VALID_FILE_TYPE_ASSOCS_def)
  show ?thesis
    using a b d e by simp
qed

text \<open>
  C4, amended. For every page identifier whose file type token is \<open>t\<close>: if \<open>t\<close> is a
  primary file type the resolver keeps it; otherwise, if \<open>t\<close> stands in the synonym
  array of a key, the resolver returns that key (so a path ending in a synonym token
  that is not itself a primary file type resolves to the key of its synonym array);
  otherwise nothing is highlighted. In \<open>syntax.js\<close> the primary file types are
  \<open>VALID_FILE_TYPES\<close>; in \<open>part_002\<close>, on a first line without \<open>#!\<close>, they are the keys
  of \<open>LANG_PRIMARY_FILE_TYPES\<close>. Lemma \<open>fileType_of_path\<close> gives the token of a path
  ending in \<open>.t\<close>.
\<close>

theorem C4_extension_resolver:
  "(\<forall>queryString t.
      highlightSyntax_fileType queryString = Inr (Some (Str t)) \<longrightarrow>
        (t \<in> set VALID_FILE_TYPES \<longrightarrow>
           highlightSyntax queryString = Inr (Some (getFileTypeAssocs (Str t))))
      \<and> (t \<notin> set VALID_FILE_TYPES \<longrightarrow>
           (\<forall>k syns. (k, syns) \<in> set VALID_FILE_TYPE_SYNONYMS \<and> t \<in> set syns \<longrightarrow>
              highlightSyntax queryString = Inr (Some (getFileTypeAssocs (Str k)))))
      \<and> (t \<notin> set VALID_FILE_TYPES
           \<and> (\<forall>(k, syns) \<in> set VALID_FILE_TYPE_SYNONYMS. t \<notin> set syns) \<longrightarrow>
           highlightSyntax queryString = Inr None))
   \<and> (\<forall>queryString fslocText t.
      Syntax_highlightSyntax_fileType queryString = Inr (Some (Str t))
      \<and> \<not> sublist ''#!'' fslocText \<longrightarrow>
        (t \<in> set (getKeys LANG_PRIMARY_FILE_TYPES_2) \<longrightarrow>
           highlightSyntax_2 queryString fslocText =
             bindE (getFileTypeAssocations_2 (Str t)) (\<lambda>languages. Inr (Some languages)))
      \<and> (t \<notin> set (getKeys LANG_PRIMARY_FILE_TYPES_2) \<longrightarrow>
           (\<forall>k syns. (k, syns) \<in> set LANG_FILE_TYPE_SYNONYMS_2 \<and> t \<in> set syns \<longrightarrow>
              highlightSyntax_2 queryString fslocText =
                bindE (getFileTypeAssocations_2 (Str k)) (\<lambda>languages. Inr (Some languages))))
      \<and> (t \<notin> set (getKeys LANG_PRIMARY_FILE_TYPES_2)
           \<and> (\<forall>(k, syns) \<in> set LANG_FILE_TYPE_SYNONYMS_2. t \<notin> set syns) \<longrightarrow>
           highlightSyntax_2 queryString fslocText = Inr None))"
proof (intro conjI allI impI; (elim conjE)?)
  fix queryString t
  assume q: "highlightSyntax_fileType queryString = Inr (Some (Str t))"
  have h: "highlightSyntax queryString = Inr (highlightSyntax_configure (Str t))"
    by (simp add: highlightSyntax_def q)
  {
    assume "t \<in> set VALID_FILE_TYPES"
    then show "highlightSyntax queryString = Inr (Some (getFileTypeAssocs (Str t)))"
      by (simp add: h highlightSyntax_configure_eq image_iff)
  }
  {
    fix k syns
    assume "t \<notin> set VALID_FILE_TYPES" and m: "(k, syns) \<in> set VALID_FILE_TYPE_SYNONYMS"
      and s: "t \<in> set syns"
    moreover have "isFileTypeSynonym (Str t)"
      unfolding isFileTypeSynonym_def isFileTypeSynonym_loop_iff
      using m s by (intro bexI [of _ "(k, syns)"]) simp_all
    ultimately show "highlightSyntax queryString = Inr (Some (getFileTypeAssocs (Str k)))"
      by (simp add: h highlightSyntax_configure_eq image_iff getPrimaryFileType_of_synonym)
  }
  {
    assume "t \<notin> set VALID_FILE_TYPES"
      and n: "\<forall>(k, syns) \<in> set VALID_FILE_TYPE_SYNONYMS. t \<notin> set syns"
    moreover have "\<not> isFileTypeSynonym (Str t)"
      unfolding isFileTypeSynonym_def isFileTypeSynonym_loop_iff using n by auto
    ultimately show "highlightSyntax queryString = Inr None"
      by (simp add: h highlightSyntax_configure_eq image_iff)
  }
next
  fix queryString fslocText t
  assume q: "Syntax_highlightSyntax_fileType queryString = Inr (Some (Str t))"
    and f: "\<not> sublist ''#!'' fslocText"
  have h: "highlightSyntax_2 queryString fslocText = highlightSyntax_configure_2 (Str t) fslocText"
    by (simp add: highlightSyntax_2_def q)
  note c = highlightSyntax_configure_2_no_shebang [OF f, of "Str t"]
  have g: "getFileTypeAssocations_2 v = Inr (getFileTypeAssocs_of FILE_TYPE_ASSOCIATIONS_2 v)" for v
    by (simp add: getFileTypeAssocations_2_def Syntax_getFileTypeAssocs_eq)
  {
    assume "t \<in> set (getKeys LANG_PRIMARY_FILE_TYPES_2)"
    then show "highlightSyntax_2 queryString fslocText =
        bindE (getFileTypeAssocations_2 (Str t)) (\<lambda>languages. Inr (Some languages))"
      by (simp add: h c g image_iff)
  }
  {
    fix k syns
    assume "t \<notin> set (getKeys LANG_PRIMARY_FILE_TYPES_2)"
      and m: "(k, syns) \<in> set LANG_FILE_TYPE_SYNONYMS_2" and s: "t \<in> set syns"
    moreover have "isSynonymFileType_2 (Str t)"
      unfolding isSynonymFileType_2_def isFileTypeSynonym_loop_iff
      using m s by (intro bexI [of _ "(k, syns)"]) simp_all
    ultimately show "highlightSyntax_2 queryString fslocText =
        bindE (getFileTypeAssocations_2 (Str k)) (\<lambda>languages. Inr (Some languages))"
      by (simp add: h c g image_iff getPrimaryFileType_2_of_synonym)
  }
  {
    assume "t \<notin> set (getKeys LANG_PRIMARY_FILE_TYPES_2)"
      and n: "\<forall>(k, syns) \<in> set LANG_FILE_TYPE_SYNONYMS_2. t \<notin> set syns"
    moreover have "\<not> isSynonymFileType_2 (Str t)"
      unfolding isSynonymFileType_2_def isFileTypeSynonym_loop_iff using n by auto
    ultimately show "highlightSyntax_2 queryString fslocText = Inr None"
      by (simp add: h c image_iff)
  }
qed

theorem C4_extension_resolver_witness:
  "highlightSyntax_fileType '';a=blob;f=src/main.c'' = Inr (Some (Str ''c''))
   \<and> ''c'' \<in> set VALID_FILE_TYPES
   \<and> highlightSyntax '';a=blob;f=src/main.c'' = Inr (Some (getFileTypeAssocs (Str ''c'')))
   \<and> highlightSyntax_fileType '';a=blob;f=lib/app.php5'' = Inr (Some (Str ''php5''))
   \<and> ''php5'' \<notin> set VALID_FILE_TYPES
   \<and> (''php'', [''php5'', ''phtml'']) \<in> set VALID_FILE_TYPE_SYNONYMS
   \<and> ''php5'' \<in> set [''php5'', ''phtml'']
   \<and> highlightSyntax '';a=blob;f=lib/app.php5'' = Inr (Some (getFileTypeAssocs (Str ''php'')))
   \<and> highlightSyntax_fileType '';a=blob;f=README.txt'' = Inr (Some (Str ''txt''))
   \<and> ''txt'' \<notin> set VALID_FILE_TYPES
   \<and> ''txt'' \<notin> set (concat (map snd VALID_FILE_TYPE_SYNONYMS))
   \<and> highlightSyntax '';a=blob;f=README.txt'' = Inr None
   \<and> \<not> sublist ''#!'' ''''
   \<and> ''c'' \<in> set (getKeys LANG_PRIMARY_FILE_TYPES_2)
   \<and> highlightSyntax_2 '';a=blob;f=src/main.c'' '''' =
       bindE (getFileTypeAssocations_2 (Str ''c'')) (\<lambda>languages. Inr (Some languages))
   \<and> ''php5'' \<notin> set (getKeys LANG_PRIMARY_FILE_TYPES_2)
   \<and> (''php'', [''php5'', ''phar'', ''phtml'']) \<in> set LANG_FILE_TYPE_SYNONYMS_2
   \<and> ''php5'' \<in> set [''php5'', ''phar'', ''phtml'']
   \<and> highlightSyntax_2 '';a=blob;f=lib/app.php5'' '''' =
       bindE (getFileTypeAssocations_2 (Str ''php'')) (\<lambda>languages. Inr (Some languages))
   \<and> ''txt'' \<notin> set (getKeys LANG_PRIMARY_FILE_TYPES_2)
   \<and> ''txt'' \<notin> set (concat (map snd LANG_FILE_TYPE_SYNONYMS_2))
   \<and> highlightSyntax_2 '';a=blob;f=README.txt'' '''' = Inr None"
proof -
  note A = conjunct1 [OF C4_extension_resolver]
  note B = conjunct2 [OF C4_extension_resolver]
  have f1: "highlightSyntax_fileType '';a=blob;f=src/main.c'' = Inr (Some (Str ''c''))"
    and f2: "highlightSyntax_fileType '';a=blob;f=lib/app.php5'' = Inr (Some (Str ''php5''))"
    and f3: "highlightSyntax_fileType '';a=blob;f=README.txt'' = Inr (Some (Str ''txt''))"
    by (simp_all add: highlightSyntax_fileType_eq fileType_examples fileType_app_php5)
  have g1: "Syntax_highlightSyntax_fileType '';a=blob;f=src/main.c'' = Inr (Some (Str ''c''))
      \<and> \<not> sublist ''#!'' ''''"
    and g2: "Syntax_highlightSyntax_fileType '';a=blob;f=lib/app.php5'' = Inr (Some (Str ''php5''))
      \<and> \<not> sublist ''#!'' ''''"
    and g3: "Syntax_highlightSyntax_fileType '';a=blob;f=README.txt'' = Inr (Some (Str ''txt''))
      \<and> \<not> sublist ''#!'' ''''"
    by (simp_all add: fileType_examples fileType_app_php5)
  have v: "''c'' \<in> set VALID_FILE_TYPES" "''php5'' \<notin> set VALID_FILE_TYPES"
    "''txt'' \<notin> set VALID_FILE_TYPES"
    by (simp_all add: VALID_FILE_TYPES_def)
  have s: "(''php'', [''php5'', ''phtml'']) \<in> set VALID_FILE_TYPE_SYNONYMS
      \<and> ''php5'' \<in> set [''php5'', ''phtml'']"
    by (simp add: VALID_FILE_TYPE_SYNONYMS_def)
  have n: "''txt'' \<notin> set VALID_FILE_TYPES
      \<and> (\<forall>(k, syns) \<in> set VALID_FILE_TYPE_SYNONYMS. ''txt'' \<notin> set syns)"
    by (simp add: VALID_FILE_TYPES_def VALID_FILE_TYPE_SYNONYMS_def)
  have v2: "''c'' \<in> set (getKeys LANG_PRIMARY_FILE_TYPES_2)"
    "''php5'' \<notin> set (getKeys LANG_PRIMARY_FILE_TYPES_2)"
    "''txt'' \<notin> set (getKeys LANG_PRIMARY_FILE_TYPES_2)"
    by (simp_all add: LANG_PRIMARY_FILE_TYPES_2_def getKeys_def Object_keys_def)
  have s2: "(''php'', [''php5'', ''phar'', ''phtml'']) \<in> set LANG_FILE_TYPE_SYNONYMS_2
      \<and> ''php5'' \<in> set [''php5'', ''phar'', ''phtml'']"
    by (simp add: LANG_FILE_TYPE_SYNONYMS_2_def)
  have n2: "''txt'' \<notin> set (getKeys LANG_PRIMARY_FILE_TYPES_2)
      \<and> (\<forall>(k, syns) \<in> set LANG_FILE_TYPE_SYNONYMS_2. ''txt'' \<notin> set syns)"
    by (simp add: LANG_PRIMARY_FILE_TYPES_2_def getKeys_def Object_keys_def
        LANG_FILE_TYPE_SYNONYMS_2_def)
  note a1 = mp [OF spec [OF spec [OF A]] f1]
  note a2 = mp [OF spec [OF spec [OF A]] f2]
  note a3 = mp [OF spec [OF spec [OF A]] f3]
  note b1 = mp [OF spec [OF spec [OF spec [OF B]]] g1]
  note b2 = mp [OF spec [OF spec [OF spec [OF B]]] g2]
  note b3 = mp [OF spec [OF spec [OF spec [OF B]]] g3]
  note r1 = mp [OF conjunct1 [OF a1] v(1)]
  note r2 = mp [OF spec [OF spec [OF mp [OF conjunct1 [OF conjunct2 [OF a2]] v(2)]]] s]
  note r3 = mp [OF conjunct2 [OF conjunct2 [OF a3]] n]
  note t1 = mp [OF conjunct1 [OF b1] v2(1)]
  note t2 = mp [OF spec [OF spec [OF mp [OF conjunct1 [OF conjunct2 [OF b2]] v2(2)]]] s2]
  note t3 = mp [OF conjunct2 [OF conjunct2 [OF b3]] n2]
  have c: "''txt'' \<notin> set (concat (map snd VALID_FILE_TYPE_SYNONYMS))"
    by (simp add: VALID_FILE_TYPE_SYNONYMS_def)
  have c2: "''txt'' \<notin> set (concat (map snd LANG_FILE_TYPE_SYNONYMS_2))"
    by (simp add: LANG_FILE_TYPE_SYNONYMS_2_def)
  show ?thesis
    using f1 f2 f3 v conjunct1 [OF s] conjunct2 [OF s] c r1 r2 r3
      conjunct2 [OF g1] v2 conjunct1 [OF s2] conjunct2 [OF s2] c2 t1 t2 t3
    by (intro conjI)
qed

end
